theory Spec2Isabelle
  imports Complex_Main
begin

section \<open>Shared data: strings, durations, errors, HTTP messages\<close>

text \<open>
  Go strings and byte slices are sequences of bytes: both are \<open>string\<close> (a list of
  8-bit characters). \<open>time.Duration\<close> and Go's \<open>int\<close> are 64-bit signed integers; they
  are \<open>int\<close> here, and the one place where the source can leave the 64-bit range (the
  back-off computation) writes the conversion and the wrap-around out.
\<close>

type_synonym duration = int

definition millisecond :: duration where
  "millisecond = 1000000"

definition second :: duration where
  "second = 1000000000"

definition wrap64 :: "int \<Rightarrow> int" where
  "wrap64 x = (x + 2 ^ 63) mod 2 ^ 64 - 2 ^ 63"

text \<open>
  Go errors. \<open>Canceled\<close> and \<open>DeadlineExceeded\<close> are the two sentinel values of package
  context. Every other error is a leaf or wraps another error (\<open>Unwrap\<close>); the first
  field says whether its dynamic type implements \<open>net.Error\<close> and, if so, what
  \<open>Timeout()\<close> and \<open>Temporary()\<close> answer. \<open>fmt.Errorf("msg: %w", e)\<close> is
  \<open>Wrap None ''msg'' e\<close>.
\<close>

datatype error =
    Canceled
  | DeadlineExceeded
  | Leaf "(bool \<times> bool) option" string
  | Wrap "(bool \<times> bool) option" string error

fun errors_Is :: "error \<Rightarrow> error \<Rightarrow> bool" where
  "errors_Is (Wrap n m e) t = (Wrap n m e = t \<or> errors_Is e t)"
| "errors_Is e t = (e = t)"

text \<open>
  \<open>errors.As(err, &netErr)\<close> for \<open>net.Error\<close>: the first error of the chain whose type
  implements the interface. \<open>context.DeadlineExceeded\<close> does (both methods answer true).
\<close>

fun as_net_error :: "error \<Rightarrow> (bool \<times> bool) option" where
  "as_net_error Canceled = None"
| "as_net_error DeadlineExceeded = Some (True, True)"
| "as_net_error (Leaf n m) = n"
| "as_net_error (Wrap (Some tt) m e) = Some tt"
| "as_net_error (Wrap None m e) = as_net_error e"

text \<open>
  \<open>http.Header\<close> and \<open>url.Values\<close> are maps from a key to a list of values. They are
  association lists with distinct keys; the order of the list stands for the order in
  which a \<open>range\<close> loop happens to visit the map.
\<close>

type_synonym multimap = "(string \<times> string list) list"

definition mm_lookup :: "multimap \<Rightarrow> string \<Rightarrow> string list" where
  "mm_lookup h k = (case map_of h k of None \<Rightarrow> [] | Some vs \<Rightarrow> vs)"

definition mm_Get :: "multimap \<Rightarrow> string \<Rightarrow> string" where
  "mm_Get h k = (case mm_lookup h k of [] \<Rightarrow> [] | v # _ \<Rightarrow> v)"

fun mm_put :: "multimap \<Rightarrow> string \<Rightarrow> string list \<Rightarrow> multimap" where
  "mm_put [] k vs = [(k, vs)]"
| "mm_put ((k', vs') # h) k vs = (if k' = k then (k, vs) # h else (k', vs') # mm_put h k vs)"

definition mm_Set :: "multimap \<Rightarrow> string \<Rightarrow> string \<Rightarrow> multimap" where
  "mm_Set h k v = mm_put h k [v]"

definition mm_Add :: "multimap \<Rightarrow> string \<Rightarrow> string \<Rightarrow> multimap" where
  "mm_Add h k v = mm_put h k (mm_lookup h k @ [v])"

text \<open>
  The methods of \<open>http.Header\<close> canonicalise the key first
  (\<open>textproto.CanonicalMIMEHeaderKey\<close>, standard library): the function is the
  parameter \<open>canon\<close>.
\<close>

definition Header_Get :: "(string \<Rightarrow> string) \<Rightarrow> multimap \<Rightarrow> string \<Rightarrow> string" where
  "Header_Get canon h k = mm_Get h (canon k)"

definition Header_Set :: "(string \<Rightarrow> string) \<Rightarrow> multimap \<Rightarrow> string \<Rightarrow> string \<Rightarrow> multimap" where
  "Header_Set canon h k v = mm_Set h (canon k) v"

definition Header_Add :: "(string \<Rightarrow> string) \<Rightarrow> multimap \<Rightarrow> string \<Rightarrow> string \<Rightarrow> multimap" where
  "Header_Add canon h k v = mm_Add h (canon k) v"

text \<open>
  An \<open>io.ReadCloser\<close> that is a response body: what reading it to the end yields (the
  bytes, or an error), and how often it has been read to the end and closed so far.
\<close>

record body_stream =
  content :: string
  read_error :: "error option"
  reads :: nat
  closes :: nat

record http_response =
  StatusCode :: int
  RespHeader :: multimap
  RespBody :: "body_stream option"

text \<open>
  Functions of the Go standard library and of the platform that the repository calls and
  that are not part of it. They are parameters of the model: every theorem holds for
  all of them.
  \<^item> \<open>unicode_upper\<close>, \<open>unicode_lower\<close>: \<open>strings.ToUpper\<close> and \<open>strings.ToLower\<close> on
    a string with a byte outside ASCII; \<open>unicode_trim_space\<close>: \<open>strings.TrimSpace\<close> on
    such a string;
  \<^item> \<open>canon\<close>: \<open>textproto.CanonicalMIMEHeaderKey\<close>;
  \<^item> \<open>url_Parse\<close>, \<open>url_String\<close>: \<open>url.Parse\<close> and \<open>(*URL).String\<close>;
  \<^item> \<open>valid_method\<close>: the method check of \<open>http.NewRequestWithContext\<close>;
  \<^item> \<open>out_of_range\<close>: the result of converting a \<open>float64\<close> that no \<open>int64\<close>
    represents (the language leaves it to the implementation).
\<close>

record go_url =
  Scheme :: string
  Host :: string
  Path :: string
  Query :: multimap

record stdlib =
  unicode_upper :: "string \<Rightarrow> string"
  unicode_lower :: "string \<Rightarrow> string"
  unicode_trim_space :: "string \<Rightarrow> string"
  canon :: "string \<Rightarrow> string"
  url_Parse :: "string \<Rightarrow> error + go_url"
  url_String :: "go_url \<Rightarrow> string"
  valid_method :: "string \<Rightarrow> bool"
  out_of_range :: "rat \<Rightarrow> int"

text \<open>
  The part of \<open>*http.Request\<close> the pipeline uses. \<open>URL\<close> is \<open>None\<close> for a nil
  pointer; the query string of a URL is kept in parsed form (\<open>url.Values\<close>: what
  \<open>u.Query()\<close> returns and what \<open>q.Encode()\<close> stores back into \<open>RawQuery\<close>).
  \<open>GetBody\<close> is the body regeneration hook: called while attempt \<open>n\<close> is prepared, it
  yields a fresh body or an error.
\<close>

record http_request =
  Method :: string
  URL :: "go_url option"
  Header :: multimap
  Body :: "string option"
  ContentLength :: int
  GetBody :: "(int \<Rightarrow> error + string) option"

subsection \<open>strings\<close>

text \<open>
  On a string of ASCII bytes \<open>strings.ToUpper\<close> and \<open>strings.ToLower\<close> map byte by
  byte: a letter differs from the letter of the other case in bit 5 (value 32) only.
\<close>

definition is_ascii :: "string \<Rightarrow> bool" where
  "is_ascii s = list_all (\<lambda>c. (of_char c :: nat) < 128) s"

definition ascii_upper :: "char \<Rightarrow> char" where
  "ascii_upper c =
     (case c of Char b0 b1 b2 b3 b4 b5 b6 b7 \<Rightarrow>
        if 97 \<le> (of_char c :: nat) \<and> (of_char c :: nat) \<le> 122
        then Char b0 b1 b2 b3 b4 False b6 b7 else c)"

definition ascii_lower :: "char \<Rightarrow> char" where
  "ascii_lower c =
     (case c of Char b0 b1 b2 b3 b4 b5 b6 b7 \<Rightarrow>
        if 65 \<le> (of_char c :: nat) \<and> (of_char c :: nat) \<le> 90
        then Char b0 b1 b2 b3 b4 True b6 b7 else c)"

definition strings_ToUpper :: "'a stdlib_scheme \<Rightarrow> string \<Rightarrow> string" where
  "strings_ToUpper std s = (if is_ascii s then map ascii_upper s else unicode_upper std s)"

definition strings_ToLower :: "'a stdlib_scheme \<Rightarrow> string \<Rightarrow> string" where
  "strings_ToLower std s = (if is_ascii s then map ascii_lower s else unicode_lower std s)"

definition ascii_space :: "char \<Rightarrow> bool" where
  "ascii_space c = ((of_char c :: nat) \<in> {9, 10, 11, 12, 13, 32})"

definition strings_TrimSpace :: "'a stdlib_scheme \<Rightarrow> string \<Rightarrow> string" where
  "strings_TrimSpace std s =
     (if is_ascii s then rev (dropWhile ascii_space (rev (dropWhile ascii_space s)))
      else unicode_trim_space std s)"

definition TrimLeft :: "string \<Rightarrow> char \<Rightarrow> string" where
  "TrimLeft s c = dropWhile (\<lambda>x. x = c) s"

definition TrimRight :: "string \<Rightarrow> char \<Rightarrow> string" where
  "TrimRight s c = rev (dropWhile (\<lambda>x. x = c) (rev s))"

definition HasPrefix :: "string \<Rightarrow> string \<Rightarrow> bool" where
  "HasPrefix s pre = (take (length pre) s = pre)"

section \<open>Package retry\<close>

record PolicyConfig =
  MaxAttempts :: int
  BaseBackoff :: duration
  MaxBackoff :: duration
  StatusCodes :: "int list"
  Env :: string
  IdempotentOnly :: bool

text \<open>
  The policy built by \<open>NewPolicy\<close>. Its random source is not a field: the number that
  \<open>rand.Float64()\<close> returns (in \<open>[0, 1)\<close>) is an argument of the functions that draw one.
\<close>

record policy =
  maxAttempts :: int
  baseBackoff :: duration
  maxBackoff :: duration
  statusCodes :: "int set"
  idempotentOnly :: bool

definition NewPolicy :: "PolicyConfig \<Rightarrow> policy" where
  "NewPolicy cfg =
     (let cfg = (if MaxAttempts cfg \<le> 0 then cfg\<lparr>MaxAttempts := 3\<rparr> else cfg);
          cfg = (if BaseBackoff cfg \<le> 0 then cfg\<lparr>BaseBackoff := 200 * millisecond\<rparr> else cfg);
          cfg = (if MaxBackoff cfg \<le> 0 then cfg\<lparr>MaxBackoff := 2 * second\<rparr> else cfg)
      in \<lparr>maxAttempts = MaxAttempts cfg,
          baseBackoff = BaseBackoff cfg,
          maxBackoff = MaxBackoff cfg,
          statusCodes = set (StatusCodes cfg),
          idempotentOnly = IdempotentOnly cfg\<rparr>)"

definition isIdempotent :: "'a stdlib_scheme \<Rightarrow> string \<Rightarrow> bool" where
  "isIdempotent std method =
     (let m = strings_ToUpper std method
      in if m = ''GET'' \<or> m = ''HEAD'' \<or> m = ''OPTIONS'' \<or> m = ''PUT'' \<or> m = ''DELETE''
         then True else False)"

definition isNetErrorRetryable :: "error \<Rightarrow> bool" where
  "isNetErrorRetryable err =
     (case as_net_error err of Some (tmo, tmp) \<Rightarrow> tmo \<or> tmp | None \<Rightarrow> False)"

text \<open>
  \<open>float64\<close> values are rationals: the arithmetic is exact where the source's rounds to
  53 bits. The conversion to \<open>time.Duration\<close> truncates towards zero; outside the range
  of \<open>int64\<close> its result is the platform's.
\<close>

definition pow2 :: "int \<Rightarrow> rat" where
  "pow2 n = (if 0 \<le> n then 2 ^ nat n else 1 / 2 ^ nat (- n))"

definition go_trunc :: "rat \<Rightarrow> int" where
  "go_trunc x = (if 0 \<le> x then \<lfloor>x\<rfloor> else \<lceil>x\<rceil>)"

definition duration_of_float :: "'a stdlib_scheme \<Rightarrow> rat \<Rightarrow> duration" where
  "duration_of_float std x =
     (if - (2 ^ 63) \<le> go_trunc x \<and> go_trunc x < 2 ^ 63 then go_trunc x else out_of_range std x)"

definition backoff :: "'a stdlib_scheme \<Rightarrow> policy \<Rightarrow> int \<Rightarrow> rat \<Rightarrow> duration" where
  "backoff std p attempt rnd =
     (let factor = pow2 (attempt - 1);
          delay = duration_of_float std (of_int (baseBackoff p) * factor);
          delay = (if delay > maxBackoff p then maxBackoff p else delay);
          jitter = rnd * of_int delay * (2 / 10)
      in wrap64 (delay + duration_of_float std jitter))"

definition ShouldRetry ::
  "'a stdlib_scheme \<Rightarrow> policy \<Rightarrow> http_request \<Rightarrow> http_response option \<Rightarrow> error option \<Rightarrow>
     int \<Rightarrow> bool \<Rightarrow> rat \<Rightarrow> duration \<times> bool" where
  "ShouldRetry std p req resp err attempt force rnd =
     (if attempt \<ge> maxAttempts p then (0, False)
      else if \<not> force \<and> idempotentOnly p \<and> \<not> isIdempotent std (Method req) then (0, False)
      else case err of
        Some e \<Rightarrow>
          if errors_Is e Canceled \<or> errors_Is e DeadlineExceeded then (0, False)
          else if isNetErrorRetryable e then (backoff std p attempt rnd, True)
          else (0, False)
      | None \<Rightarrow>
          (case resp of
             None \<Rightarrow> (0, False)
           | Some r \<Rightarrow>
               if StatusCode r \<in> statusCodes p then (backoff std p attempt rnd, True)
               else (0, False)))"


text \<open>
  What travels in \<open>req.Context()\<close>: the policy and the force flag stored by
  \<open>WithPolicy\<close> and \<open>WithForce\<close>, the breaker override stored by \<open>WithOverride\<close>, and the
  two things the retry loop asks of its environment after attempt \<open>n\<close>: \<open>ctx_done n\<close> is
  the outcome of the \<open>select\<close> of \<open>waitWithContext\<close> (\<open>Some e\<close> when \<open>ctx.Done()\<close> is
  received before the timer fires, \<open>e\<close> being \<open>ctx.Err()\<close>), and \<open>rnd n\<close> is the number
  the policy's random source returns.
\<close>

record call_ctx =
  ctx_policy :: "policy option"
  ctx_force :: bool
  ctx_override :: "bool option"
  ctx_done :: "int \<Rightarrow> error option"
  rnd :: "int \<Rightarrow> rat"

definition PolicyFromContext :: "call_ctx \<Rightarrow> policy option" where
  "PolicyFromContext ctx = ctx_policy ctx"

definition IsForce :: "call_ctx \<Rightarrow> bool" where
  "IsForce ctx = ctx_force ctx"

definition WithPolicy :: "call_ctx \<Rightarrow> policy \<Rightarrow> call_ctx" where
  "WithPolicy ctx p = ctx\<lparr>ctx_policy := Some p\<rparr>"

definition WithForce :: "call_ctx \<Rightarrow> call_ctx" where
  "WithForce ctx = ctx\<lparr>ctx_force := True\<rparr>"

definition waitWithContext :: "error option \<Rightarrow> duration \<Rightarrow> error option" where
  "waitWithContext done d = (if d \<le> 0 then None else done)"

definition prepareAttemptRequest :: "http_request \<Rightarrow> int \<Rightarrow> error + http_request" where
  "prepareAttemptRequest req attempt =
     (if attempt = 1 then Inr req
      else case GetBody req of
        None \<Rightarrow> Inr req
      | Some get \<Rightarrow>
          (case get attempt of
             Inl e \<Rightarrow> Inl (Wrap None ''reset body'' e)
           | Inr body \<Rightarrow> Inr (req\<lparr>Body := Some body\<rparr>)))"

text \<open>
  An \<open>http.RoundTripper\<close> is a function of the request and of the state of the world it
  acts on (the servers, the breakers); the context of the request is passed beside it.
  It returns the pair \<open>(resp, err)\<close> of the source and the new state.
\<close>

type_synonym outcome = "http_response option \<times> error option"

type_synonym 's round_tripper = "call_ctx \<Rightarrow> http_request \<Rightarrow> 's \<Rightarrow> outcome \<times> 's"

text \<open>
  The loop of the retry middleware, from attempt \<open>attempt\<close> on. Closing the body of a
  response that is retried and the debug log leave no trace in the result.
\<close>

function retry_loop ::
  "'a stdlib_scheme \<Rightarrow> policy \<Rightarrow> 's round_tripper \<Rightarrow> call_ctx \<Rightarrow> http_request \<Rightarrow> int \<Rightarrow> 's \<Rightarrow>
     outcome \<times> 's" where
  "retry_loop std pol next ctx orig attempt s =
     (case prepareAttemptRequest orig attempt of
        Inl e \<Rightarrow> ((None, Some e), s)
      | Inr currentReq \<Rightarrow>
          (case next ctx currentReq s of
             ((resp, err), s') \<Rightarrow>
               (case ShouldRetry std pol currentReq resp err attempt (IsForce ctx) (rnd ctx attempt) of
                  (delay, retryable) \<Rightarrow>
                    if \<not> retryable then ((resp, err), s')
                    else
                      (case waitWithContext (ctx_done ctx attempt) delay of
                         Some e \<Rightarrow> ((None, Some (Wrap None ''retry interrupted'' e)), s')
                       | None \<Rightarrow> retry_loop std pol next ctx orig (attempt + 1) s'))))"
  by pat_completeness auto
termination
  apply (relation "measure (\<lambda>(std, pol, next, ctx, orig, attempt, s). nat (maxAttempts pol - attempt))")
   apply simp
  apply (auto simp: ShouldRetry_def split: if_splits option.splits)
  done

declare retry_loop.simps [simp del]

definition retry_NewMiddleware ::
  "'a stdlib_scheme \<Rightarrow> policy option \<Rightarrow> 's round_tripper \<Rightarrow> 's round_tripper" where
  "retry_NewMiddleware std defaultPolicy next =
     (\<lambda>ctx req s.
        let policy = PolicyFromContext ctx;
            policy = (if policy = None then defaultPolicy else policy)
        in case policy of
             None \<Rightarrow> next ctx req s
           | Some pol \<Rightarrow> retry_loop std pol next ctx req 1 s)"

section \<open>Package auth\<close>

record APIKeyOptions =
  Key :: string
  In :: string
  Name :: string

record apiKeyProvider =
  key :: string
  location :: string
  name :: string

definition NewAPIKey :: "'a stdlib_scheme \<Rightarrow> APIKeyOptions \<Rightarrow> apiKeyProvider" where
  "NewAPIKey std opts =
     (let location = strings_ToLower std (strings_TrimSpace std (In opts));
          location = (if location = [] then ''header'' else location);
          name = Name opts;
          name = (if name = [] then ''X-API-Key'' else name)
      in \<lparr>key = Key opts, location = location, name = name\<rparr>)"

text \<open>
  \<open>Apply\<close> changes the request in place: the model returns the changed request, or the
  error. \<open>u.Query()\<close>, \<open>query.Set\<close> and \<open>u.RawQuery = query.Encode()\<close> act on the parsed
  form of the query string.
\<close>

definition apiKey_Apply :: "'a stdlib_scheme \<Rightarrow> apiKeyProvider \<Rightarrow> http_request \<Rightarrow> error + http_request" where
  "apiKey_Apply std p req =
     (if key p = [] then Inl (Leaf None ''api key is empty'')
      else if location p = ''query'' then
        (case URL req of
           None \<Rightarrow> Inl (Leaf None ''request URL is nil'')
         | Some u \<Rightarrow> Inr (req\<lparr>URL := Some (u\<lparr>Query := mm_Set (Query u) (name p) (key p)\<rparr>)\<rparr>))
      else if location p = ''header'' \<or> location p = [] then
        Inr (req\<lparr>Header := Header_Set (canon std) (Header req) (name p) (key p)\<rparr>)
      else Inl (Leaf None (''unsupported api key location: '' @ location p)))"

text \<open>
  \<open>AuthProvider\<close> is an interface. Its implementations are the API-key provider and any
  function from a request to an error or the changed request (\<open>ProviderFunc\<close>; the
  basic and JWT providers are such functions).
\<close>

datatype AuthProvider =
    APIKeyProvider apiKeyProvider
  | ProviderFunc "http_request \<Rightarrow> error + http_request"

fun auth_Apply :: "'a stdlib_scheme \<Rightarrow> AuthProvider \<Rightarrow> http_request \<Rightarrow> error + http_request" where
  "auth_Apply std (APIKeyProvider p) req = apiKey_Apply std p req"
| "auth_Apply std (ProviderFunc f) req = f req"

section \<open>Package httpc: requests\<close>

text \<open>
  The configuration of a client, as far as the request builder and the retry set-up read
  it.
\<close>

record Config =
  BaseURL :: string
  RetryEnabled :: bool
  RetryMaxAttempts :: int
  RetryBaseBackoff :: duration
  RetryMaxBackoff :: duration
  RetryOnStatuses :: "int list"
  CfgEnv :: string
  BreakerEnabled :: bool
  DefaultAuth :: "AuthProvider option"
  RetryPolicy :: "policy option"
  UserAgent :: string

text \<open>
  A body factory (\<open>bodyProvider\<close>) can be called again and again; called for attempt \<open>n\<close>
  (\<open>1\<close> when the request is built) it yields the body, its length and a content type,
  or an error.
\<close>

type_synonym bodyProvider = "int \<Rightarrow> error + (string \<times> int \<times> string)"

record Request =
  "method" :: string
  url :: string
  headers :: multimap
  queries :: multimap
  timeout :: duration
  authProvider :: "AuthProvider option"
  retryPolicy :: "policy option"
  forceRetry :: bool
  breakerToggle :: "bool option"
  bodyFactory :: "bodyProvider option"
  contentType :: string
  accept :: string

definition WithHeader :: "'a stdlib_scheme \<Rightarrow> string \<Rightarrow> string \<Rightarrow> Request \<Rightarrow> Request" where
  "WithHeader std k v r = r\<lparr>headers := Header_Set (canon std) (headers r) k v\<rparr>"

definition WithAccept :: "string \<Rightarrow> Request \<Rightarrow> Request" where
  "WithAccept v r = r\<lparr>accept := v\<rparr>"

definition WithContentType :: "string \<Rightarrow> Request \<Rightarrow> Request" where
  "WithContentType v r = r\<lparr>contentType := v\<rparr>"

definition WithQuery :: "string \<Rightarrow> string \<Rightarrow> Request \<Rightarrow> Request" where
  "WithQuery k v r = r\<lparr>queries := mm_Add (queries r) k v\<rparr>"

definition WithRequestRetry :: "policy \<Rightarrow> Request \<Rightarrow> Request" where
  "WithRequestRetry p r = r\<lparr>retryPolicy := Some p\<rparr>"

definition WithRequestRetryForce :: "Request \<Rightarrow> Request" where
  "WithRequestRetryForce r = r\<lparr>forceRetry := True\<rparr>"

definition WithRaw :: "string \<Rightarrow> string \<Rightarrow> Request \<Rightarrow> Request" where
  "WithRaw body ctype r = r\<lparr>bodyFactory := Some (\<lambda>n. Inr (body, int (length body), ctype))\<rparr>"

definition choose_str :: "string \<Rightarrow> string \<Rightarrow> string" where
  "choose_str current fallback = (if current \<noteq> [] then current else fallback)"

text \<open>
  \<open>WithJSON v\<close>: \<open>marshalled\<close> is what \<open>json.Marshal(v)\<close> returns.
\<close>

definition WithJSON :: "error + string \<Rightarrow> Request \<Rightarrow> Request" where
  "WithJSON marshalled r =
     r\<lparr>bodyFactory := Some (\<lambda>n. case marshalled of
                                  Inl e \<Rightarrow> Inl e
                                | Inr b \<Rightarrow> Inr (b, int (length b), ''application/json'')),
       accept := choose_str (accept r) ''application/json''\<rparr>"

definition newRequest :: "'a stdlib_scheme \<Rightarrow> string \<Rightarrow> string \<Rightarrow> (Request \<Rightarrow> Request) list \<Rightarrow> Request" where
  "newRequest std meth target opts =
     fold (\<lambda>opt r. opt r) opts
       \<lparr>method = strings_ToUpper std meth, url = target, headers = [], queries = [],
        timeout = 0, authProvider = None, retryPolicy = None, forceRetry = False,
        breakerToggle = None, bodyFactory = None, contentType = [], accept = []\<rparr>"

definition isAbsoluteURL :: "'a stdlib_scheme \<Rightarrow> string \<Rightarrow> bool" where
  "isAbsoluteURL std raw = (case url_Parse std raw of Inl e \<Rightarrow> False | Inr u \<Rightarrow> Scheme u \<noteq> [])"

text \<open>
  \<open>buildHTTPRequest\<close>, block by block. First the target is resolved against the base
  URL.
\<close>

definition resolve_target :: "'a stdlib_scheme \<Rightarrow> string \<Rightarrow> string \<Rightarrow> string" where
  "resolve_target std baseURL rurl =
     (if baseURL \<noteq> [] \<and> \<not> isAbsoluteURL std rurl then
        (let target = TrimRight baseURL CHR ''/'';
             target = (if \<not> HasPrefix rurl ''/'' then target @ ''/'' else target)
         in target @ TrimLeft rurl CHR ''/'')
      else rurl)"

text \<open>
  Then the query parameters of the request are added to those of the target, value by
  value.
\<close>

definition add_queries :: "multimap \<Rightarrow> multimap \<Rightarrow> multimap" where
  "add_queries q rq = fold (\<lambda>(k, vv) q. fold (\<lambda>v q. mm_Add q k v) vv q) rq q"

definition merge_query :: "'a stdlib_scheme \<Rightarrow> multimap \<Rightarrow> string \<Rightarrow> error + string" where
  "merge_query std rq target =
     (if length rq > 0 then
        (case url_Parse std target of
           Inl e \<Rightarrow> Inl e
         | Inr u \<Rightarrow> Inr (url_String std (u\<lparr>Query := add_queries (Query u) rq\<rparr>)))
      else Inr target)"

text \<open>
  \<open>http.NewRequestWithContext\<close> (standard library): an empty method means GET, the
  method is checked and the target parsed. The body handed over by the builder is of
  none of the types for which it sets \<open>ContentLength\<close> and \<open>GetBody\<close> itself.
\<close>

definition http_NewRequest :: "'a stdlib_scheme \<Rightarrow> string \<Rightarrow> string \<Rightarrow> string option \<Rightarrow> error + http_request" where
  "http_NewRequest std meth target body =
     (let meth = (if meth = [] then ''GET'' else meth)
      in if \<not> valid_method std meth then Inl (Leaf None ''net/http: invalid method'')
         else case url_Parse std target of
           Inl e \<Rightarrow> Inl (Wrap None ''parse'' e)
         | Inr u \<Rightarrow> Inr \<lparr>Method = meth, URL = Some u, Header = [], Body = body,
                         ContentLength = 0, GetBody = None\<rparr>)"

definition copy_headers :: "'a stdlib_scheme \<Rightarrow> multimap \<Rightarrow> multimap \<Rightarrow> multimap" where
  "copy_headers std rh h = fold (\<lambda>(k, vv) h. fold (\<lambda>v h. Header_Add (canon std) h k v) vv h) rh h"

text \<open>
  The headers of the wire request: those of the request are copied, then the user agent,
  the content type and the accept hint are set where the header is still empty.
  \<open>r_contentType\<close> is \<open>r.contentType\<close> at that point.
\<close>

definition build_headers :: "'a stdlib_scheme \<Rightarrow> Config \<Rightarrow> Request \<Rightarrow> string \<Rightarrow> multimap \<Rightarrow> multimap" where
  "build_headers std cfg r r_contentType h0 =
     (let h = copy_headers std (headers r) h0;
          h = (if UserAgent cfg \<noteq> [] \<and> Header_Get (canon std) h ''User-Agent'' = []
               then Header_Set (canon std) h ''User-Agent'' (UserAgent cfg) else h);
          h = (if r_contentType \<noteq> [] \<and> Header_Get (canon std) h ''Content-Type'' = []
               then Header_Set (canon std) h ''Content-Type'' r_contentType else h)
      in if accept r \<noteq> [] \<and> Header_Get (canon std) h ''Accept'' = []
         then Header_Set (canon std) h ''Accept'' (accept r) else h)"

text \<open>
  The body: the factory is called once; a content type it returns is assigned to
  \<open>r.contentType\<close>. The result is the body, its length and \<open>r.contentType\<close>.
\<close>

definition build_body :: "Request \<Rightarrow> error + (string option \<times> int \<times> string)" where
  "build_body r =
     (case bodyFactory r of
        None \<Rightarrow> Inr (None, 0, contentType r)
      | Some factory \<Rightarrow>
          (case factory 1 of
             Inl e \<Rightarrow> Inl e
           | Inr (rc, cl, ctype) \<Rightarrow>
               Inr (Some rc, cl, if ctype \<noteq> [] then ctype else contentType r)))"

definition set_GetBody :: "Request \<Rightarrow> http_request \<Rightarrow> http_request" where
  "set_GetBody r httpReq =
     (case bodyFactory r of
        None \<Rightarrow> httpReq
      | Some factory \<Rightarrow>
          httpReq\<lparr>GetBody := Some (\<lambda>n. case factory n of
                                    Inl e \<Rightarrow> Inl e
                                  | Inr (rc, cl, ctype) \<Rightarrow> Inr rc)\<rparr>)"

definition buildHTTPRequest :: "'a stdlib_scheme \<Rightarrow> Config \<Rightarrow> Request \<Rightarrow> error + http_request" where
  "buildHTTPRequest std cfg r =
     (case merge_query std (queries r) (resolve_target std (BaseURL cfg) (url r)) of
        Inl e \<Rightarrow> Inl e
      | Inr target \<Rightarrow>
          (case build_body r of
             Inl e \<Rightarrow> Inl e
           | Inr (body, contentLength, r_contentType) \<Rightarrow>
               (case http_NewRequest std (method r) target body of
                  Inl e \<Rightarrow> Inl e
                | Inr httpReq \<Rightarrow>
                    (let httpReq = set_GetBody r httpReq;
                         httpReq = httpReq\<lparr>Header := build_headers std cfg r r_contentType (Header httpReq)\<rparr>
                     in Inr (if contentLength \<ge> 0 then httpReq\<lparr>ContentLength := contentLength\<rparr>
                             else httpReq)))))"

section \<open>Package breaker\<close>

datatype cb_state = StateClosed | StateHalfOpen | StateOpen

record Counts =
  ConsecutiveFailures :: nat

record Settings =
  sName :: string
  MaxRequests :: nat
  sInterval :: duration
  sTimeout :: duration
  sReadyToTrip :: "Counts \<Rightarrow> bool"

record circuit_breaker =
  settings :: Settings
  state :: cb_state
  counts :: Counts
  last_transition :: int

definition ErrOpenState :: error where
  "ErrOpenState = Leaf None ''circuit breaker is open''"

text \<open>
  Modelled from the spec: \<open>gobreaker.NewCircuitBreaker\<close> and
  \<open>(*gobreaker.CircuitBreaker).Execute\<close> of github.com/sony/gobreaker, which the
  repository calls and which are not under src/. The breaker of a host has a state
  (closed, open, half-open), a counter of consecutive failures and the time of its last
  transition. Closed: requests pass; a failure increments the counter, a success resets
  it to zero, and when the counter reaches the threshold (\<open>ReadyToTrip\<close>) the breaker
  opens. Open: a request is rejected with the breaker-open error and the wrapped call
  is not made; once the cooldown (\<open>Timeout\<close>) has elapsed the next request is let
  through as a trial and the state is half-open. Half-open: a successful trial closes
  the breaker and resets the counter, a failed one reopens it and restarts the cooldown.
  A failure is a wrapped call that returns an error. \<open>now\<close> is the reading of the
  clock.
\<close>

definition NewCircuitBreaker :: "Settings \<Rightarrow> int \<Rightarrow> circuit_breaker" where
  "NewCircuitBreaker st now =
     \<lparr>settings = st, state = StateClosed, counts = \<lparr>ConsecutiveFailures = 0\<rparr>,
      last_transition = now\<rparr>"

definition cb_currentState :: "circuit_breaker \<Rightarrow> int \<Rightarrow> circuit_breaker" where
  "cb_currentState cb now =
     (if state cb = StateOpen \<and> last_transition cb + sTimeout (settings cb) < now
      then cb\<lparr>state := StateHalfOpen, last_transition := now\<rparr> else cb)"

definition cb_onSuccess :: "circuit_breaker \<Rightarrow> int \<Rightarrow> circuit_breaker" where
  "cb_onSuccess cb now =
     (if state cb = StateHalfOpen
      then cb\<lparr>state := StateClosed, counts := \<lparr>ConsecutiveFailures = 0\<rparr>, last_transition := now\<rparr>
      else cb\<lparr>counts := \<lparr>ConsecutiveFailures = 0\<rparr>\<rparr>)"

definition cb_onFailure :: "circuit_breaker \<Rightarrow> int \<Rightarrow> circuit_breaker" where
  "cb_onFailure cb now =
     (if state cb = StateHalfOpen then cb\<lparr>state := StateOpen, last_transition := now\<rparr>
      else
        (let c = \<lparr>ConsecutiveFailures = ConsecutiveFailures (counts cb) + 1\<rparr>
         in if sReadyToTrip (settings cb) c
            then cb\<lparr>state := StateOpen, counts := c, last_transition := now\<rparr>
            else cb\<lparr>counts := c\<rparr>))"

definition cb_Execute ::
  "circuit_breaker \<Rightarrow> int \<Rightarrow> ('s \<Rightarrow> outcome \<times> 's) \<Rightarrow> 's \<Rightarrow> outcome \<times> circuit_breaker \<times> 's" where
  "cb_Execute cb0 now fn s =
     (let cb = cb_currentState cb0 now
      in if state cb = StateOpen then ((None, Some ErrOpenState), cb, s)
         else case fn s of
           ((resp, err), s') \<Rightarrow>
             ((resp, err), (if err = None then cb_onSuccess cb now else cb_onFailure cb now), s'))"

text \<open>
  The manager of the repository: one breaker per host, made on first use.
\<close>

record breaker_Config =
  cName :: string
  Interval :: duration
  Timeout :: duration
  ReadyToTrip :: "(Counts \<Rightarrow> bool) option"

type_synonym breakers = "string \<rightharpoonup> circuit_breaker"

definition defaultDuration :: "duration \<Rightarrow> duration \<Rightarrow> duration" where
  "defaultDuration v fallback = (if v > 0 then v else fallback)"

definition manager_get :: "breaker_Config \<Rightarrow> breakers \<Rightarrow> string \<Rightarrow> int \<Rightarrow> circuit_breaker \<times> breakers" where
  "manager_get config m host now =
     (case m host of
        Some cb \<Rightarrow> (cb, m)
      | None \<Rightarrow>
          (let st = \<lparr>sName = host, MaxRequests = 1, sInterval = Interval config,
                      sTimeout = defaultDuration (Timeout config) (30 * second),
                      sReadyToTrip =
                        (case ReadyToTrip config of
                           Some f \<Rightarrow> f
                         | None \<Rightarrow> (\<lambda>c. ConsecutiveFailures c \<ge> 5))\<rparr>;
               cb = NewCircuitBreaker st now
           in (cb, m(host \<mapsto> cb))))"

definition manager_Do ::
  "breaker_Config \<Rightarrow> breakers \<Rightarrow> string \<Rightarrow> int \<Rightarrow> ('s \<Rightarrow> outcome \<times> 's) \<Rightarrow> 's \<Rightarrow>
     outcome \<times> breakers \<times> 's" where
  "manager_Do config m host now fn s =
     (if host = [] then (case fn s of (out, s') \<Rightarrow> (out, m, s'))
      else case manager_get config m host now of
        (cb, m') \<Rightarrow>
          (case cb_Execute cb now fn s of
             ((result, err), cb', s') \<Rightarrow>
               (if err \<noteq> None then ((None, err), m'(host \<mapsto> cb'), s')
                else ((result, None), m'(host \<mapsto> cb'), s'))))"

definition breaker_Enabled :: "call_ctx \<Rightarrow> bool \<Rightarrow> bool" where
  "breaker_Enabled ctx defaultEnabled =
     (case ctx_override ctx of Some v \<Rightarrow> v | None \<Rightarrow> defaultEnabled)"

definition WithOverride :: "call_ctx \<Rightarrow> bool \<Rightarrow> call_ctx" where
  "WithOverride ctx enabled = ctx\<lparr>ctx_override := Some enabled\<rparr>"

text \<open>
  The state the pipeline acts on: the breakers of the manager, the clock, and the state
  of whatever the base transport talks to.
\<close>

record 's world =
  w_breakers :: breakers
  w_clock :: int
  w_net :: 's

definition breaker_NewMiddleware ::
  "breaker_Config \<Rightarrow> 's world round_tripper \<Rightarrow> 's world round_tripper" where
  "breaker_NewMiddleware config next =
     (\<lambda>ctx req w.
        if \<not> breaker_Enabled ctx True then next ctx req w
        else
          (let host = (case URL req of None \<Rightarrow> [] | Some u \<Rightarrow> Host u)
           in case manager_Do config (w_breakers w) host (w_clock w) (next ctx req) w of
                (out, m', w') \<Rightarrow> (out, w'\<lparr>w_breakers := m'\<rparr>)))"

section \<open>Package httpc: responses\<close>



record Response =
  resp_raw :: "http_response option"
  resp_body :: string
  resp_loaded :: bool
  resp_err :: "error option"

definition newResponse :: "http_response option \<Rightarrow> Response" where
  "newResponse resp = \<lparr>resp_raw = resp, resp_body = [], resp_loaded = False, resp_err = None\<rparr>"







definition response_StatusCode :: "Response \<Rightarrow> int" where
  "response_StatusCode r = (case resp_raw r of None \<Rightarrow> 0 | Some rw \<Rightarrow> StatusCode rw)"

section \<open>Package httpc: the client\<close>

definition applyDefaults :: "Config \<Rightarrow> Config" where
  "applyDefaults c =
     (let c = (if RetryMaxAttempts c = 0 then c\<lparr>RetryMaxAttempts := 3\<rparr> else c);
          c = (if RetryBaseBackoff c = 0 then c\<lparr>RetryBaseBackoff := 200 * millisecond\<rparr> else c);
          c = (if RetryMaxBackoff c = 0 then c\<lparr>RetryMaxBackoff := 2 * second\<rparr> else c);
          c = (if length (RetryOnStatuses c) = 0 then c\<lparr>RetryOnStatuses := [502, 503, 504]\<rparr> else c)
      in c)"

definition zero_Config :: Config where
  "zero_Config =
     \<lparr>BaseURL = [], RetryEnabled = False, RetryMaxAttempts = 0, RetryBaseBackoff = 0,
      RetryMaxBackoff = 0, RetryOnStatuses = [], CfgEnv = [], BreakerEnabled = False,
      DefaultAuth = None, RetryPolicy = None, UserAgent = []\<rparr>"

definition WithBaseURL :: "string \<Rightarrow> Config \<Rightarrow> Config" where
  "WithBaseURL u c = c\<lparr>BaseURL := u\<rparr>"

definition WithRetry :: "bool \<Rightarrow> int \<Rightarrow> Config \<Rightarrow> Config" where
  "WithRetry enabled n c =
     (let c = c\<lparr>RetryEnabled := enabled\<rparr>
      in if n > 0 then c\<lparr>RetryMaxAttempts := n\<rparr> else c)"

definition WithBreaker :: "bool \<Rightarrow> Config \<Rightarrow> Config" where
  "WithBreaker enabled c = c\<lparr>BreakerEnabled := enabled\<rparr>"

definition WithAuth :: "AuthProvider \<Rightarrow> Config \<Rightarrow> Config" where
  "WithAuth p c = c\<lparr>DefaultAuth := Some p\<rparr>"

definition WithRetryPolicy :: "policy \<Rightarrow> Config \<Rightarrow> Config" where
  "WithRetryPolicy p c = c\<lparr>RetryPolicy := Some p\<rparr>"

definition WithUserAgent :: "string \<Rightarrow> Config \<Rightarrow> Config" where
  "WithUserAgent ua c = c\<lparr>UserAgent := ua\<rparr>"

definition defaultUserAgent :: string where
  "defaultUserAgent = ''httpc/0''"

record 's client =
  c_cfg :: Config
  c_transport :: "'s world round_tripper"
  c_retryPolicy :: "policy option"

text \<open>
  \<open>New\<close>, in three parts: the configuration (defaults, options, defaults again, the
  user agent), the retry policy, and the chain. \<open>transport\<close> is the base transport
  wrapped by the decompression middleware, the innermost part of the chain; the breaker
  manager is the default one. The choice of a default auth provider from configured
  credentials, the logger and the custom middlewares are left out.
\<close>

definition New_config :: "(Config \<Rightarrow> Config) list \<Rightarrow> Config" where
  "New_config opts =
     (let cfg = applyDefaults (fold (\<lambda>opt c. opt c) opts (applyDefaults zero_Config))
      in if UserAgent cfg = [] then cfg\<lparr>UserAgent := defaultUserAgent\<rparr> else cfg)"

definition New_retryPolicy :: "Config \<Rightarrow> policy option" where
  "New_retryPolicy cfg =
     (if RetryPolicy cfg = None \<and> RetryEnabled cfg
      then Some (NewPolicy \<lparr>MaxAttempts = RetryMaxAttempts cfg,
                             BaseBackoff = RetryBaseBackoff cfg,
                             MaxBackoff = RetryMaxBackoff cfg,
                             StatusCodes = RetryOnStatuses cfg,
                             Env = CfgEnv cfg,
                             IdempotentOnly = True\<rparr>)
      else RetryPolicy cfg)"

definition New ::
  "'a stdlib_scheme \<Rightarrow> (Config \<Rightarrow> Config) list \<Rightarrow> 's world round_tripper \<Rightarrow> error + 's client" where
  "New std opts transport =
     (let cfg = New_config opts;
          retryPolicy = New_retryPolicy cfg;
          transport =
            (if BreakerEnabled cfg
             then breaker_NewMiddleware \<lparr>cName = [], Interval = 0, Timeout = 0, ReadyToTrip = None\<rparr>
                    transport
             else transport)
      in if RetryEnabled cfg then
           (case retryPolicy of
              None \<Rightarrow> Inl (Leaf None ''retry enabled but no policy configured'')
            | Some pol \<Rightarrow>
                Inr \<lparr>c_cfg = cfg, c_transport = retry_NewMiddleware std (Some pol) transport,
                     c_retryPolicy = retryPolicy\<rparr>)
         else Inr \<lparr>c_cfg = cfg, c_transport = transport, c_retryPolicy = retryPolicy\<rparr>)"

text \<open>
  \<open>http.Client.Do\<close> (standard library) around the transport chain: an error of the
  chain comes back wrapped in a \<open>*url.Error\<close>, whose \<open>Timeout\<close> and \<open>Temporary\<close> are
  those of the error it wraps; a chain that returns neither a response nor an error is
  an error. Redirects and the client's own timeout are left out.
\<close>

fun direct_net :: "error \<Rightarrow> bool \<times> bool" where
  "direct_net DeadlineExceeded = (True, True)"
| "direct_net (Leaf (Some tt) m) = tt"
| "direct_net (Wrap (Some tt) m e) = tt"
| "direct_net e = (False, False)"

definition httpClient_Do ::
  "'s round_tripper \<Rightarrow> call_ctx \<Rightarrow> http_request \<Rightarrow> 's \<Rightarrow> (error + http_response) \<times> 's" where
  "httpClient_Do rt ctx req s =
     (case rt ctx req s of
        ((resp, Some e), s') \<Rightarrow> (Inl (Wrap (Some (direct_net e)) (Method req) e), s')
      | ((None, None), s') \<Rightarrow>
          (Inl (Wrap (Some (False, False)) (Method req)
                  (Leaf None ''http: RoundTripper returned a nil *Response with a nil error'')), s')
      | ((Some resp, None), s') \<Rightarrow> (Inr resp, s'))"

text \<open>
  \<open>Do\<close> works on a copy of the request (\<open>clone\<close>), so that nothing it assigns reaches
  the caller: the model passes the request by value. A timeout of the request shortens
  the deadline of the context; when the context is done is an input (\<open>ctx_done\<close>).
\<close>

definition client_Do ::
  "'a stdlib_scheme \<Rightarrow> 's client \<Rightarrow> call_ctx \<Rightarrow> Request \<Rightarrow> 's world \<Rightarrow> (error + Response) \<times> 's world" where
  "client_Do std c ctx r w =
     (case buildHTTPRequest std (c_cfg c) r of
        Inl e \<Rightarrow> (Inl e, w)
      | Inr httpReq \<Rightarrow>
          (let provider = (case authProvider r of None \<Rightarrow> DefaultAuth (c_cfg c) | Some p \<Rightarrow> Some p)
           in case (case provider of None \<Rightarrow> Inr httpReq | Some p \<Rightarrow> auth_Apply std p httpReq) of
                Inl e \<Rightarrow> (Inl (Wrap None ''apply auth'' e), w)
              | Inr httpReq \<Rightarrow>
                  (let pol = (case retryPolicy r of None \<Rightarrow> c_retryPolicy c | Some p \<Rightarrow> Some p);
                       ctx = (case pol of
                                None \<Rightarrow> ctx
                              | Some p \<Rightarrow>
                                  (let ctx = WithPolicy ctx p
                                   in if forceRetry r then WithForce ctx else ctx));
                       ctx = (case breakerToggle r of None \<Rightarrow> ctx | Some b \<Rightarrow> WithOverride ctx b)
                   in case httpClient_Do (c_transport c) ctx httpReq w of
                        (Inl e, w') \<Rightarrow> (Inl e, w')
                      | (Inr resp, w') \<Rightarrow> (Inr (newResponse (Some resp)), w'))))"

text \<open>
  \<open>Post\<close> with a body that \<open>normalizeBody\<close> turns into \<open>WithJSON\<close> (a map, a struct):
  \<open>marshalled\<close> is its JSON encoding.
\<close>

definition client_Post_JSON ::
  "'a stdlib_scheme \<Rightarrow> 's client \<Rightarrow> call_ctx \<Rightarrow> string \<Rightarrow> error + string \<Rightarrow> (Request \<Rightarrow> Request) list \<Rightarrow>
     's world \<Rightarrow> (error + Response) \<times> 's world" where
  "client_Post_JSON std c ctx target marshalled opts w =
     client_Do std c ctx (newRequest std ''POST'' target (WithJSON marshalled # opts)) w"

section \<open>The rule of the specification, an instance of the parameters, scenarios\<close>




text \<open>
  An instance of the parameters, for concrete runs: a string with a byte outside ASCII
  is left as it is, header keys are taken as they are, a target that starts with
  \<open>http://\<close> is split into scheme, host and path and any other target is a path, every
  method is accepted, and a conversion out of range yields the least \<open>int64\<close> (what the
  conversion instruction of amd64 returns).
\<close>

definition test_Parse :: "string \<Rightarrow> error + go_url" where
  "test_Parse s =
     (if HasPrefix s ''http://'' then
        Inr \<lparr>Scheme = ''http'', Host = takeWhile (\<lambda>c. c \<noteq> CHR ''/'') (drop 7 s),
             Path = dropWhile (\<lambda>c. c \<noteq> CHR ''/'') (drop 7 s), Query = []\<rparr>
      else Inr \<lparr>Scheme = [], Host = [], Path = s, Query = []\<rparr>)"

definition test_stdlib :: stdlib where
  "test_stdlib =
     \<lparr>unicode_upper = (\<lambda>s. s), unicode_lower = (\<lambda>s. s), unicode_trim_space = (\<lambda>s. s),
      canon = (\<lambda>s. s), url_Parse = test_Parse,
      url_String = (\<lambda>u. if Scheme u = [] then Path u else Scheme u @ ''://'' @ Host u @ Path u),
      valid_method = (\<lambda>m. True), out_of_range = (\<lambda>x. - (2 ^ 63))\<rparr>"

text \<open>
  For the scenarios: a chain below the retry middleware that answers every request with
  the same status and counts the requests it receives in \<open>w_net\<close>; a context that is
  never done and carries nothing (\<open>context.Background()\<close>), the random source drawing 0;
  a world without breakers; a request without URL, headers and body; and the policy of
  the default configuration.
\<close>

definition status_response :: "int \<Rightarrow> http_response" where
  "status_response code =
     \<lparr>StatusCode = code, RespHeader = [],
      RespBody = Some \<lparr>content = [], read_error = None, reads = 0, closes = 0\<rparr>\<rparr>"

definition status_server :: "int \<Rightarrow> nat world round_tripper" where
  "status_server code = (\<lambda>ctx req w. ((Some (status_response code), None), w\<lparr>w_net := w_net w + 1\<rparr>))"

definition background :: call_ctx where
  "background =
     \<lparr>ctx_policy = None, ctx_force = False, ctx_override = None, ctx_done = (\<lambda>n. None),
      rnd = (\<lambda>n. 0)\<rparr>"

definition fresh_world :: "nat world" where
  "fresh_world = \<lparr>w_breakers = Map.empty, w_clock = 0, w_net = 0\<rparr>"

definition plain_request :: "string \<Rightarrow> http_request" where
  "plain_request m =
     \<lparr>Method = m, URL = None, Header = [], Body = None, ContentLength = 0, GetBody = None\<rparr>"

definition default_policy :: policy where
  "default_policy =
     NewPolicy \<lparr>MaxAttempts = 3, BaseBackoff = 0, MaxBackoff = 0, StatusCodes = [502, 503, 504],
                Env = [], IdempotentOnly = True\<rparr>"

text \<open>
  What \<open>New\<close> builds from the option \<open>WithRetry en 3\<close> alone: the configuration.
\<close>

definition retry_Config :: "bool \<Rightarrow> Config" where
  "retry_Config en =
     \<lparr>BaseURL = [], RetryEnabled = en, RetryMaxAttempts = 3, RetryBaseBackoff = 200000000,
      RetryMaxBackoff = 2000000000, RetryOnStatuses = [502, 503, 504], CfgEnv = [],
      BreakerEnabled = False, DefaultAuth = None, RetryPolicy = None, UserAgent = ''httpc/0''\<rparr>"

text \<open>
  A policy with a budget of 64 attempts and the default back-off bounds.
\<close>

definition policy64 :: policy where
  "policy64 =
     NewPolicy \<lparr>MaxAttempts = 64, BaseBackoff = 200 * millisecond, MaxBackoff = 2 * second,
                StatusCodes = [502, 503, 504], Env = [], IdempotentOnly = True\<rparr>"



text \<open>
  A sequence of calls to one host through the manager, each with the reading of the clock
  at which it is made; and the two kinds of wrapped call: one that returns an error, and
  one that returns no error (whatever the status of its response).
\<close>

fun manager_Do_all ::
  "breaker_Config \<Rightarrow> string \<Rightarrow> (int \<times> ('s \<Rightarrow> outcome \<times> 's)) list \<Rightarrow> breakers \<Rightarrow> 's \<Rightarrow> breakers \<times> 's" where
  "manager_Do_all config host [] m s = (m, s)"
| "manager_Do_all config host ((now, fn) # calls) m s =
     (case manager_Do config m host now fn s of
        (out, m', s') \<Rightarrow> manager_Do_all config host calls m' s')"

definition call_fails :: "('s \<Rightarrow> outcome \<times> 's) \<Rightarrow> bool" where
  "call_fails fn = (\<forall>s. snd (fst (fn s)) \<noteq> None)"

definition call_succeeds :: "('s \<Rightarrow> outcome \<times> 's) \<Rightarrow> bool" where
  "call_succeeds fn = (\<forall>s. snd (fst (fn s)) = None)"

text \<open>
  The threshold the manager installs when the configuration has none, and what the
  theorems say of the breaker of a host: closed with \<open>c\<close> consecutive failures, or open
  since \<open>t\<close>, in both cases with the cooldown of the manager.
\<close>

definition default_trip :: "Counts \<Rightarrow> bool" where
  "default_trip = (\<lambda>c. ConsecutiveFailures c \<ge> 5)"

definition closed_at :: "breaker_Config \<Rightarrow> circuit_breaker \<Rightarrow> nat \<Rightarrow> bool" where
  "closed_at config cb c \<longleftrightarrow>
     state cb = StateClosed \<and> ConsecutiveFailures (counts cb) = c \<and>
     sReadyToTrip (settings cb) = default_trip \<and>
     sTimeout (settings cb) = defaultDuration (Timeout config) (30 * second)"

definition open_since :: "breaker_Config \<Rightarrow> circuit_breaker \<Rightarrow> int \<Rightarrow> bool" where
  "open_since config cb t \<longleftrightarrow>
     state cb = StateOpen \<and> last_transition cb = t \<and>
     sTimeout (settings cb) = defaultDuration (Timeout config) (30 * second)"

text \<open>
  The breaker the manager makes for a host on first use; the default configuration of
  the manager (\<open>breaker.Config{}\<close>); and a wrapped call that returns a given outcome and
  counts itself.
\<close>

definition fresh_breaker :: "breaker_Config \<Rightarrow> string \<Rightarrow> int \<Rightarrow> circuit_breaker" where
  "fresh_breaker config host now = fst (manager_get config Map.empty host now)"

definition host_closed :: "breaker_Config \<Rightarrow> string \<Rightarrow> breakers \<Rightarrow> nat \<Rightarrow> bool" where
  "host_closed config host m c \<longleftrightarrow> (\<exists>cb. m host = Some cb \<and> closed_at config cb c)"

definition host_open :: "breaker_Config \<Rightarrow> string \<Rightarrow> breakers \<Rightarrow> int \<Rightarrow> bool" where
  "host_open config host m t \<longleftrightarrow> (\<exists>cb. m host = Some cb \<and> open_since config cb t)"

definition default_breaker_Config :: breaker_Config where
  "default_breaker_Config = \<lparr>cName = [], Interval = 0, Timeout = 0, ReadyToTrip = None\<rparr>"

definition answer :: "outcome \<Rightarrow> nat \<Rightarrow> outcome \<times> nat" where
  "answer out = (\<lambda>s. (out, s + 1))"


section \<open>Verification\<close>

subsection \<open>Package retry: policy construction\<close>

text \<open>
  Claim C10. \<open>NewPolicy\<close> normalises non-positive configuration before it builds the
  policy: a \<open>MaxAttempts\<close> that is zero or negative becomes 3, such a \<open>BaseBackoff\<close>
  becomes 200 milliseconds and such a \<open>MaxBackoff\<close> 2 seconds; positive values are kept.
  Every policy it builds therefore has a strictly positive attempt budget and strictly
  positive back-off bounds.
\<close>

theorem NewPolicy_normalizes:
  "maxAttempts (NewPolicy cfg) = (if MaxAttempts cfg \<le> 0 then 3 else MaxAttempts cfg) \<and>
   baseBackoff (NewPolicy cfg) = (if BaseBackoff cfg \<le> 0 then 200 * millisecond else BaseBackoff cfg) \<and>
   maxBackoff (NewPolicy cfg) = (if MaxBackoff cfg \<le> 0 then 2 * second else MaxBackoff cfg) \<and>
   statusCodes (NewPolicy cfg) = set (StatusCodes cfg) \<and>
   idempotentOnly (NewPolicy cfg) = IdempotentOnly cfg \<and>
   0 < maxAttempts (NewPolicy cfg) \<and> 0 < baseBackoff (NewPolicy cfg) \<and> 0 < maxBackoff (NewPolicy cfg)"
  by (simp add: NewPolicy_def Let_def millisecond_def second_def)

theorem NewPolicy_normalizes_witness:
  "NewPolicy \<lparr>MaxAttempts = 0, BaseBackoff = - 5, MaxBackoff = 0, StatusCodes = [503],
      Env = ''dev'', IdempotentOnly = True\<rparr>
   = \<lparr>maxAttempts = 3, baseBackoff = 200000000, maxBackoff = 2000000000, statusCodes = {503},
      idempotentOnly = True\<rparr>"
  using NewPolicy_normalizes [of "\<lparr>MaxAttempts = 0, BaseBackoff = - 5, MaxBackoff = 0,
      StatusCodes = [503], Env = ''dev'', IdempotentOnly = True\<rparr>"]
  by (simp add: millisecond_def second_def policy.equality)

subsection \<open>Package retry: the decision\<close>






subsection \<open>Package retry: the loop of the middleware\<close>


lemma retry_loop_stop:
  assumes "prepareAttemptRequest orig k = Inr cur"
    and "rt ctx cur s = ((resp, err), s')"
    and "\<not> snd (ShouldRetry std pol cur resp err k (IsForce ctx) (rnd ctx k))"
  shows "retry_loop std pol rt ctx orig k s = ((resp, err), s')"
proof (cases "ShouldRetry std pol cur resp err k (IsForce ctx) (rnd ctx k)")
  case (Pair d b)
  with assms show ?thesis by (subst retry_loop.simps) simp
qed

lemma retry_loop_continue:
  assumes "prepareAttemptRequest orig k = Inr cur"
    and "rt ctx cur s = ((resp, err), s')"
    and "ShouldRetry std pol cur resp err k (IsForce ctx) (rnd ctx k) = (d, True)"
    and "waitWithContext (ctx_done ctx k) d = None"
  shows "retry_loop std pol rt ctx orig k s = retry_loop std pol rt ctx orig (k + 1) s'"
  using assms by (subst retry_loop.simps) simp

lemma default_policy_eq:
  "default_policy = \<lparr>maxAttempts = 3, baseBackoff = 200000000, maxBackoff = 2000000000,
     statusCodes = {502, 503, 504}, idempotentOnly = True\<rparr>"
  by (simp add: default_policy_def NewPolicy_def millisecond_def second_def)




lemma POST_not_idempotent: "\<not> isIdempotent std ''POST''"
  by (simp add: isIdempotent_def strings_ToUpper_def is_ascii_def ascii_upper_def)

lemma ShouldRetry_exhausted:
  "maxAttempts p \<le> k \<Longrightarrow> ShouldRetry std p req resp err k force r = (0, False)"
  by (simp add: ShouldRetry_def)

lemma ShouldRetry_not_idempotent:
  "\<not> force \<Longrightarrow> idempotentOnly p \<Longrightarrow> \<not> isIdempotent std (Method req) \<Longrightarrow>
   ShouldRetry std p req resp err k force r = (0, False)"
  by (simp add: ShouldRetry_def)

lemma ShouldRetry_status:
  "k < maxAttempts p \<Longrightarrow> force \<or> \<not> idempotentOnly p \<or> isIdempotent std (Method req) \<Longrightarrow>
   StatusCode resp \<in> statusCodes p \<Longrightarrow>
   ShouldRetry std p req (Some resp) None k force r = (backoff std p k r, True)"
  by (auto simp: ShouldRetry_def)



subsection \<open>A client against a server that always answers 503\<close>

lemma prepare_Method:
  "prepareAttemptRequest req k = Inr cur \<Longrightarrow> Method cur = Method req"
  by (auto simp: prepareAttemptRequest_def split: if_splits option.splits sum.splits)

lemma prepare_with_body:
  "GetBody hr = Some (\<lambda>n. Inr b) \<Longrightarrow> \<exists>cur. prepareAttemptRequest hr k = Inr cur"
  by (simp add: prepareAttemptRequest_def)

lemma loop_not_forced_non_idempotent:
  assumes "prepareAttemptRequest req k = Inr cur"
    and "\<not> IsForce ctx" "idempotentOnly p" "\<not> isIdempotent std (Method req)"
  shows "retry_loop std p (status_server code) ctx req k w
         = ((Some (status_response code), None), w\<lparr>w_net := w_net w + 1\<rparr>)"
  using assms
  by (intro retry_loop_stop [where cur = cur])
     (simp_all add: status_server_def ShouldRetry_not_idempotent prepare_Method)

text \<open>
  On a server that always answers with a retryable status, a request that may be retried
  uses up the budget: started at attempt \<open>k\<close>, the loop makes \<open>maxAttempts - k + 1\<close>
  attempts and returns the last response, with no error.
\<close>

lemma loop_budget:
  fixes w :: "nat world"
  assumes prep: "\<And>k. \<exists>cur. prepareAttemptRequest req k = Inr cur"
    and force: "IsForce ctx \<or> \<not> idempotentOnly p \<or> isIdempotent std (Method req)"
    and cd: "code \<in> statusCodes p"
    and nd: "\<And>n. ctx_done ctx n = None"
    and k: "k \<le> maxAttempts p"
  shows "retry_loop std p (status_server code) ctx req k w
         = ((Some (status_response code), None),
            w\<lparr>w_net := w_net w + nat (maxAttempts p - k) + 1\<rparr>)"
  using k
proof (induction "nat (maxAttempts p - k)" arbitrary: k w)
  case 0
  then have eq: "k = maxAttempts p" by simp
  obtain cur where c: "prepareAttemptRequest req k = Inr cur" using prep by blast
  have "retry_loop std p (status_server code) ctx req k w
        = ((Some (status_response code), None), w\<lparr>w_net := w_net w + 1\<rparr>)"
    by (rule retry_loop_stop [OF c])
       (simp_all add: status_server_def ShouldRetry_exhausted eq)
  then show ?case using eq by simp
next
  case (Suc n)
  then have lt: "k < maxAttempts p" and n: "n = nat (maxAttempts p - (k + 1))" by simp_all
  obtain cur where c: "prepareAttemptRequest req k = Inr cur" using prep by blast
  have m: "Method cur = Method req" using c by (rule prepare_Method)
  have sr: "ShouldRetry std p cur (Some (status_response code)) None k (IsForce ctx) (rnd ctx k)
            = (backoff std p k (rnd ctx k), True)"
    using lt force cd by (intro ShouldRetry_status) (simp_all add: m status_response_def)
  have step: "retry_loop std p (status_server code) ctx req k w
              = retry_loop std p (status_server code) ctx req (k + 1) (w\<lparr>w_net := w_net w + 1\<rparr>)"
    by (rule retry_loop_continue [where cur = cur and resp = "Some (status_response code)"
          and err = None and d = "backoff std p k (rnd ctx k)"])
       (simp_all add: c sr status_server_def waitWithContext_def nd)
  have "nat (maxAttempts p - k) = Suc (nat (maxAttempts p - (k + 1)))" using lt by simp
  then show ?case
    using Suc.hyps(1) [OF n] lt by (simp add: step)
qed

lemma build_with_body:
  assumes "url_Parse std (url r) = Inr u" "valid_method std (method r)" "method r \<noteq> []"
    and "BaseURL cfg = []" "queries r = []"
    and "bodyFactory r = Some (\<lambda>n. Inr (b, l, ct))"
  shows "\<exists>hr. buildHTTPRequest std cfg r = Inr hr \<and> Method hr = method r \<and>
              GetBody hr = Some (\<lambda>n. Inr b)"
  using assms
  by (simp add: buildHTTPRequest_def merge_query_def resolve_target_def http_NewRequest_def
        build_body_def set_GetBody_def Let_def)

lemma newRequest_POST_JSON:
  "newRequest std ''POST'' target [WithJSON (Inr b)] =
     \<lparr>method = ''POST'', url = target, headers = [], queries = [], timeout = 0,
      authProvider = None, retryPolicy = None, forceRetry = False, breakerToggle = None,
      bodyFactory = Some (\<lambda>n. Inr (b, int (length b), ''application/json'')),
      contentType = [], accept = ''application/json''\<rparr>"
  by (simp add: newRequest_def WithJSON_def choose_str_def strings_ToUpper_def is_ascii_def
        ascii_upper_def)

lemma newRequest_POST_JSON_force:
  "newRequest std ''POST'' target [WithJSON (Inr b), WithRequestRetryForce] =
     \<lparr>method = ''POST'', url = target, headers = [], queries = [], timeout = 0,
      authProvider = None, retryPolicy = None, forceRetry = True, breakerToggle = None,
      bodyFactory = Some (\<lambda>n. Inr (b, int (length b), ''application/json'')),
      contentType = [], accept = ''application/json''\<rparr>"
  by (simp add: newRequest_def WithJSON_def WithRequestRetryForce_def choose_str_def
        strings_ToUpper_def is_ascii_def ascii_upper_def)

lemma New_config_WithRetry: "New_config [WithRetry en 3] = retry_Config en"
  by (simp add: New_config_def applyDefaults_def zero_Config_def WithRetry_def retry_Config_def
      defaultUserAgent_def millisecond_def second_def Let_def)

lemma New_retryPolicy_cfg:
  "New_retryPolicy (retry_Config en) = (if en then Some default_policy else None)"
  by (simp add: New_retryPolicy_def retry_Config_def NewPolicy_def default_policy_eq Let_def)

lemma New_retry_disabled:
  "New std [WithRetry False 3] t =
     Inr \<lparr>c_cfg = retry_Config False, c_transport = t, c_retryPolicy = None\<rparr>"
  by (simp add: New_def New_config_WithRetry New_retryPolicy_cfg) (simp add: retry_Config_def Let_def)

lemma New_retry_enabled:
  "New std [WithRetry True 3] t =
     Inr \<lparr>c_cfg = retry_Config True,
          c_transport = retry_NewMiddleware std (Some default_policy) t,
          c_retryPolicy = Some default_policy\<rparr>"
  by (simp add: New_def New_config_WithRetry New_retryPolicy_cfg) (simp add: retry_Config_def Let_def)

lemma Post_retry_disabled:
  assumes "url_Parse std target = Inr u" "valid_method std ''POST''"
  shows "client_Post_JSON std
           \<lparr>c_cfg = retry_Config False, c_transport = status_server code, c_retryPolicy = None\<rparr>
           ctx target (Inr b) [] w
         = (Inr (newResponse (Some (status_response code))), w\<lparr>w_net := w_net w + 1\<rparr>)"
proof -
  let ?r = "newRequest std ''POST'' target [WithJSON (Inr b)]"
  obtain hr where hr: "buildHTTPRequest std (retry_Config False) ?r = Inr hr"
    using build_with_body [where r = ?r and cfg = "retry_Config False" and std = std and u = u
        and b = b and l = "int (length b)" and ct = "''application/json''"]
      assms by (auto simp: newRequest_POST_JSON retry_Config_def)
  show ?thesis
    by (simp add: client_Post_JSON_def client_Do_def hr)
       (simp add: newRequest_POST_JSON retry_Config_def httpClient_Do_def status_server_def)
qed

lemma Post_retry_enabled:
  assumes "url_Parse std target = Inr u" "valid_method std ''POST''"
    and "ctx_policy ctx = None" "ctx_force ctx = False"
  shows "client_Post_JSON std
           \<lparr>c_cfg = retry_Config True,
            c_transport = retry_NewMiddleware std (Some default_policy) (status_server 503),
            c_retryPolicy = Some default_policy\<rparr>
           ctx target (Inr b) [] w
         = (Inr (newResponse (Some (status_response 503))), w\<lparr>w_net := w_net w + 1\<rparr>)"
proof -
  let ?r = "newRequest std ''POST'' target [WithJSON (Inr b)]"
  obtain hr where hr: "buildHTTPRequest std (retry_Config True) ?r = Inr hr"
    and m: "Method hr = ''POST''" and g: "GetBody hr = Some (\<lambda>n. Inr b)"
    using build_with_body [where r = ?r and cfg = "retry_Config True" and std = std and u = u
        and b = b and l = "int (length b)" and ct = "''application/json''"]
      assms by (auto simp: newRequest_POST_JSON retry_Config_def)
  have p: "prepareAttemptRequest hr 1 = Inr hr" by (simp add: prepareAttemptRequest_def)
  have loop: "retry_loop std default_policy (status_server 503) (WithPolicy ctx default_policy) hr 1 w
              = ((Some (status_response 503), None), w\<lparr>w_net := w_net w + 1\<rparr>)"
    by (rule loop_not_forced_non_idempotent [OF p])
       (simp_all add: IsForce_def WithPolicy_def assms default_policy_eq m POST_not_idempotent)
  show ?thesis
    by (simp add: client_Post_JSON_def client_Do_def hr)
       (simp add: newRequest_POST_JSON retry_Config_def httpClient_Do_def retry_NewMiddleware_def
          PolicyFromContext_def WithPolicy_def loop [unfolded WithPolicy_def])
qed

lemma Post_retry_forced:
  assumes "url_Parse std target = Inr u" "valid_method std ''POST''"
    and "ctx_policy ctx = None" "\<And>n. ctx_done ctx n = None"
  shows "client_Post_JSON std
           \<lparr>c_cfg = retry_Config True,
            c_transport = retry_NewMiddleware std (Some default_policy) (status_server 503),
            c_retryPolicy = Some default_policy\<rparr>
           ctx target (Inr b) [WithRequestRetryForce] w
         = (Inr (newResponse (Some (status_response 503))), w\<lparr>w_net := w_net w + 3\<rparr>)"
proof -
  let ?r = "newRequest std ''POST'' target [WithJSON (Inr b), WithRequestRetryForce]"
  let ?ctx = "WithForce (WithPolicy ctx default_policy)"
  obtain hr where hr: "buildHTTPRequest std (retry_Config True) ?r = Inr hr"
    and m: "Method hr = ''POST''" and g: "GetBody hr = Some (\<lambda>n. Inr b)"
    using build_with_body [where r = ?r and cfg = "retry_Config True" and std = std and u = u
        and b = b and l = "int (length b)" and ct = "''application/json''"]
      assms by (auto simp: newRequest_POST_JSON_force retry_Config_def)
  have "retry_loop std default_policy (status_server 503) ?ctx hr 1 w
        = ((Some (status_response 503), None),
           w\<lparr>w_net := w_net w + nat (maxAttempts default_policy - 1) + 1\<rparr>)"
    by (rule loop_budget)
       (simp_all add: prepare_with_body [OF g] IsForce_def WithForce_def WithPolicy_def assms
          default_policy_eq)
  then have loop: "retry_loop std default_policy (status_server 503) ?ctx hr 1 w
        = ((Some (status_response 503), None), w\<lparr>w_net := w_net w + 3\<rparr>)"
    by (simp add: default_policy_eq)
  show ?thesis
    by (simp add: client_Post_JSON_def client_Do_def hr)
       (simp add: newRequest_POST_JSON_force retry_Config_def httpClient_Do_def
          retry_NewMiddleware_def PolicyFromContext_def WithPolicy_def WithForce_def
          loop [unfolded WithPolicy_def WithForce_def])
qed

lemma test_Parse_items:
  "url_Parse test_stdlib ''http://svc.test/v1/items''
     = Inr \<lparr>Scheme = ''http'', Host = ''svc.test'', Path = ''/v1/items'', Query = []\<rparr>"
  by (simp add: test_stdlib_def test_Parse_def HasPrefix_def)

lemma test_valid_method: "valid_method test_stdlib m"
  by (simp add: test_stdlib_def)

text \<open>
  Claim C1, as stated: a POST against a server that always returns 503, sent by a client
  with retries enabled and three attempts at most and with no forced-retry flag, makes
  exactly three attempts. It makes one: the policy that \<open>New\<close> builds is restricted to
  idempotent methods, and POST is not one.
\<close>

theorem post_503_counterexample: \<open>
  \<exists>c. New test_stdlib [WithRetry True 3] (status_server 503) = Inr c \<and>
      client_Post_JSON test_stdlib c background ''http://svc.test/v1/items''
          (Inr ''{"name":"demo"}'') [] fresh_world
        = (Inr (newResponse (Some (status_response 503))), fresh_world\<lparr>w_net := 1\<rparr>) \<and>
      w_net (snd (client_Post_JSON test_stdlib c background ''http://svc.test/v1/items''
          (Inr ''{"name":"demo"}'') [] fresh_world)) \<noteq> 3\<close>
  using Post_retry_enabled [of test_stdlib "''http://svc.test/v1/items''" _ background _ fresh_world,
      OF test_Parse_items test_valid_method]
  by (simp add: New_retry_enabled background_def fresh_world_def)

text \<open>
  Claim C1, amended: for a POST request against a server that always returns status 503:
  with retries disabled the call makes exactly one attempt and returns the 503 response
  with no error; with retries enabled and max attempts 3 and no forced-retry flag the
  call also makes exactly one attempt and returns the 503 response with no error (the
  policy of the client retries idempotent methods only); with the forced-retry flag set
  it makes exactly three attempts and the final result is still the 503 response with no
  error. Exhausting the budget stops the retries and never makes an error. The context
  of the call is not cancelled while the call waits, and the target parses.
\<close>

theorem post_503_attempts:
  assumes "url_Parse std target = Inr u" and "valid_method std ''POST''"
    and "ctx_policy ctx = None" and "ctx_force ctx = False"
    and "\<forall>n. ctx_done ctx n = None"
  shows "\<exists>c0 c1.
      New std [WithRetry False 3] (status_server 503) = Inr c0 \<and>
      New std [WithRetry True 3] (status_server 503) = Inr c1 \<and>
      client_Post_JSON std c0 ctx target (Inr b) [] w
        = (Inr (newResponse (Some (status_response 503))), w\<lparr>w_net := w_net w + 1\<rparr>) \<and>
      client_Post_JSON std c1 ctx target (Inr b) [] w
        = (Inr (newResponse (Some (status_response 503))), w\<lparr>w_net := w_net w + 1\<rparr>) \<and>
      client_Post_JSON std c1 ctx target (Inr b) [WithRequestRetryForce] w
        = (Inr (newResponse (Some (status_response 503))), w\<lparr>w_net := w_net w + 3\<rparr>)"
  using assms
  by (simp add: New_retry_disabled New_retry_enabled Post_retry_disabled [where u = u]
        Post_retry_enabled [where u = u] Post_retry_forced [where u = u])

theorem post_503_attempts_witness: \<open>
  \<exists>c0 c1.
      New test_stdlib [WithRetry False 3] (status_server 503) = Inr c0 \<and>
      New test_stdlib [WithRetry True 3] (status_server 503) = Inr c1 \<and>
      client_Post_JSON test_stdlib c0 background ''http://svc.test/v1/items''
          (Inr ''{"name":"demo"}'') [] fresh_world
        = (Inr (newResponse (Some (status_response 503))), fresh_world\<lparr>w_net := 1\<rparr>) \<and>
      client_Post_JSON test_stdlib c1 background ''http://svc.test/v1/items''
          (Inr ''{"name":"demo"}'') [] fresh_world
        = (Inr (newResponse (Some (status_response 503))), fresh_world\<lparr>w_net := 1\<rparr>) \<and>
      client_Post_JSON test_stdlib c1 background ''http://svc.test/v1/items''
          (Inr ''{"name":"demo"}'') [WithRequestRetryForce] fresh_world
        = (Inr (newResponse (Some (status_response 503))), fresh_world\<lparr>w_net := 3\<rparr>)\<close>
  using post_503_attempts [of test_stdlib "''http://svc.test/v1/items''" _ background _ fresh_world,
      OF test_Parse_items test_valid_method]
  by (simp add: background_def fresh_world_def)

subsection \<open>Package retry: the back-off delay\<close>

lemma go_trunc_of_int: "go_trunc (of_int n) = n"
  by (simp add: go_trunc_def)

lemma go_trunc_bounds: "0 \<le> x \<Longrightarrow> 0 \<le> go_trunc x \<and> of_int (go_trunc x) \<le> x"
  by (simp add: go_trunc_def)

lemma wrap64_id: "- (2 ^ 63) \<le> x \<Longrightarrow> x < 2 ^ 63 \<Longrightarrow> wrap64 x = x"
  by (simp add: wrap64_def)

lemma sum_fits:
  fixes J D M :: int
  shows "5 * J \<le> D \<Longrightarrow> D \<le> M \<Longrightarrow> 6 * M < 5 * 2 ^ 63 \<Longrightarrow> D + J < 2 ^ 63"
  by simp

lemma nonneg_fits: "0 \<le> (x::int) \<Longrightarrow> - (2 ^ 63) \<le> x"
  by simp

text \<open>
  As long as \<open>baseBackoff * 2^(k-1)\<close> is below \<open>2^63\<close> (and the cap is not within a fifth
  of it), the delay is the capped exponential plus a jitter between zero and a fifth of
  it, whatever the random source draws.
\<close>

lemma backoff_in_range:
  assumes b: "0 < baseBackoff p" and m: "0 < maxBackoff p" and k: "1 \<le> k"
    and fits: "baseBackoff p * 2 ^ nat (k - 1) < 2 ^ 63"
    and cap: "6 * maxBackoff p < 5 * 2 ^ 63"
    and r: "0 \<le> r" "r < 1"
  shows "\<exists>jitter. backoff std p k r = min (baseBackoff p * 2 ^ nat (k - 1)) (maxBackoff p) + jitter \<and>
           0 \<le> jitter \<and> 5 * jitter \<le> min (baseBackoff p * 2 ^ nat (k - 1)) (maxBackoff p)"
proof -
  let ?raw = "baseBackoff p * 2 ^ nat (k - 1)"
  let ?d = "min ?raw (maxBackoff p)"
  have raw: "(of_int (baseBackoff p) :: rat) * pow2 (k - 1) = of_int ?raw"
    using k by (simp add: pow2_def)
  have rawpos: "0 < ?raw" using b by simp
  have d0: "duration_of_float std (of_int (baseBackoff p) * pow2 (k - 1)) = ?raw"
    using fits rawpos
    by (simp add: raw duration_of_float_def go_trunc_of_int del: of_int_mult of_int_power)
  have dpos: "0 < ?d" using rawpos m by simp
  have dle: "?d \<le> maxBackoff p" by simp
  let ?j = "r * of_int ?d * (2 / 10)"
  have j0: "0 \<le> ?j" using r dpos by simp
  have jle: "?j \<le> of_int ?d / 5"
  proof -
    have "r * of_int ?d \<le> 1 * (of_int ?d :: rat)"
      using r dpos by (intro mult_right_mono) simp_all
    then show ?thesis by simp
  qed
  have t: "0 \<le> go_trunc ?j" "(of_int (go_trunc ?j) :: rat) \<le> ?j"
    using go_trunc_bounds [OF j0] by simp_all
  have "(of_int (5 * go_trunc ?j) :: rat) \<le> of_int ?d"
    using t(2) jle by simp
  then have t5: "5 * go_trunc ?j \<le> ?d" by (simp only: of_int_le_iff)
  have sum: "?d + go_trunc ?j < 2 ^ 63" using t5 dle cap by (rule sum_fits)
  have tr: "go_trunc ?j < 2 ^ 63" using sum dpos by linarith
  have dj: "duration_of_float std ?j = go_trunc ?j"
    using t(1) tr by (simp add: duration_of_float_def)
  have capd: "(if ?raw > maxBackoff p then maxBackoff p else ?raw) = ?d"
    by (simp add: min_def)
  have "backoff std p k r = wrap64 (?d + duration_of_float std ?j)"
    by (simp only: backoff_def Let_def d0 capd)
  also have "\<dots> = wrap64 (?d + go_trunc ?j)"
    by (simp only: dj)
  also have "\<dots> = ?d + go_trunc ?j"
  proof (rule wrap64_id)
    have "0 \<le> ?d + go_trunc ?j" using dpos t(1) by linarith
    then show "- (2 ^ 63) \<le> ?d + go_trunc ?j" by (rule nonneg_fits)
    show "?d + go_trunc ?j < 2 ^ 63" by (rule sum)
  qed
  finally show ?thesis using t(1) t5 by blast
qed

text \<open>
  Claim C4. For every attempt \<open>k \<ge> 1\<close> on which the policy decides to retry, the delay is
  \<open>min (base * 2^(k-1)) maxBackoff\<close> plus a jitter of at most 20 per cent of that value.
  The code misses the case in which \<open>base * 2^(k-1)\<close> no longer fits \<open>time.Duration\<close>:
  with the default bounds (200 ms, 2 s) and a budget of 64 attempts, the policy retries
  after attempt 37, \<open>200 ms * 2^36\<close> exceeds \<open>2^63\<close> nanoseconds, the conversion of the
  product yields the least \<open>int64\<close> on amd64, the comparison with the cap does not
  fire, and the delay returned (the random source drawing 0) is \<open>-2^63\<close> nanoseconds
  instead of a value between 2 s and 2.4 s.
\<close>

theorem backoff_overflow:
  "ShouldRetry test_stdlib policy64 (plain_request ''GET'') (Some (status_response 503)) None
       37 False 0
     = (- 9223372036854775808, True) \<and>
   min (baseBackoff policy64 * 2 ^ 36) (maxBackoff policy64) = 2000000000"
  by (simp add: ShouldRetry_def policy64_def NewPolicy_def plain_request_def isIdempotent_def
        strings_ToUpper_def is_ascii_def ascii_upper_def status_response_def backoff_def pow2_def
        duration_of_float_def go_trunc_def wrap64_def millisecond_def second_def test_stdlib_def
        Let_def)

subsection \<open>The request builder: content type\<close>

lemma mm_lookup_put: "mm_lookup (mm_put h k vs) k' = (if k' = k then vs else mm_lookup h k')"
  by (induction h) (auto simp: mm_lookup_def)

lemma mm_Get_Set: "mm_Get (mm_Set h k v) k' = (if k' = k then v else mm_Get h k')"
  by (simp add: mm_Get_def mm_Set_def mm_lookup_put)

lemma Header_Get_Set:
  "Header_Get c (Header_Set c h k v) k' = (if c k' = c k then v else Header_Get c h k')"
  by (simp add: Header_Get_def Header_Set_def mm_Get_Set)

lemma Header_Get_empty: "Header_Get c [] k = []"
  by (simp add: Header_Get_def mm_Get_def mm_lookup_def)

text \<open>
  Whenever the body factory returns a content type and the caller set no header, the
  wire request carries the content type of the factory, whatever \<open>contentType\<close> the
  caller set on the request.
\<close>

lemma factory_default_overrides:
  assumes "url_Parse std (url r) = Inr u" "valid_method std (method r)" "method r \<noteq> []"
    and "BaseURL cfg = []" "queries r = []" "headers r = []"
    and "bodyFactory r = Some f" "f 1 = Inr (rc, cl, ctype)" "ctype \<noteq> []"
    and "canon std ''Content-Type'' \<noteq> canon std ''Accept''"
    and "canon std ''Content-Type'' \<noteq> canon std ''User-Agent''"
  shows "\<exists>hr. buildHTTPRequest std cfg r = Inr hr \<and>
              Header_Get (canon std) (Header hr) ''Content-Type'' = ctype"
  using assms
  by (simp add: buildHTTPRequest_def merge_query_def resolve_target_def http_NewRequest_def
        build_body_def set_GetBody_def build_headers_def copy_headers_def Header_Get_Set
        Header_Get_empty Let_def)

text \<open>
  A \<open>Content-Type\<close> or \<open>Accept\<close> header that the caller set (with a first value that is
  not empty) is on the wire request as the caller set it.
\<close>

lemma build_Header:
  assumes "buildHTTPRequest std cfg r = Inr hr"
  shows "\<exists>ct. Header hr = build_headers std cfg r ct []"
  using assms
  by (auto simp: buildHTTPRequest_def http_NewRequest_def set_GetBody_def Let_def
           split: sum.splits option.splits prod.splits if_splits)

lemma build_headers_kept:
  assumes "Header_Get (canon std) (copy_headers std (headers r) h0) k = v" "v \<noteq> []"
    and "k = ''Content-Type'' \<or> k = ''Accept''"
    and "canon std ''Content-Type'' \<noteq> canon std ''Accept''"
    and "canon std ''Content-Type'' \<noteq> canon std ''User-Agent''"
    and "canon std ''Accept'' \<noteq> canon std ''User-Agent''"
  shows "Header_Get (canon std) (build_headers std cfg r ct h0) k = v"
  using assms by (auto simp: build_headers_def Let_def Header_Get_Set)

lemma caller_header_kept:
  assumes "buildHTTPRequest std cfg r = Inr hr"
    and "Header_Get (canon std) (copy_headers std (headers r) []) k = v" "v \<noteq> []"
    and "k = ''Content-Type'' \<or> k = ''Accept''"
    and "canon std ''Content-Type'' \<noteq> canon std ''Accept''"
    and "canon std ''Content-Type'' \<noteq> canon std ''User-Agent''"
    and "canon std ''Accept'' \<noteq> canon std ''User-Agent''"
  shows "Header_Get (canon std) (Header hr) k = v"
proof -
  obtain ct where "Header hr = build_headers std cfg r ct []"
    using build_Header [OF assms(1)] by blast
  then show ?thesis
    using build_headers_kept [OF assms(2-)] by simp
qed

text \<open>
  Claim C2. When the body factory returns a content type and the caller set one on the
  request (\<open>WithContentType\<close>) and no \<open>Content-Type\<close> header, the wire request is to carry
  the caller's. The code assigns the factory's content type to \<open>r.contentType\<close> whenever
  it is not empty, so the caller's is lost: a POST with a JSON body and
  \<open>WithContentType("text/plain")\<close>, the case of the test \<open>overrides_content_type\<close>, goes
  out with \<open>Content-Type: application/json\<close>.
\<close>

theorem explicit_content_type_lost: \<open>
  \<exists>hr. buildHTTPRequest test_stdlib (retry_Config False)
         (newRequest test_stdlib ''POST'' ''http://svc.test/test''
            [WithJSON (Inr ''{"key":"value"}''), WithContentType ''text/plain''])
       = Inr hr \<and>
       Header_Get (canon test_stdlib) (Header hr) ''Content-Type'' = ''application/json''\<close>
  by (rule factory_default_overrides
        [where u = "\<lparr>Scheme = ''http'', Host = ''svc.test'', Path = ''/test'', Query = []\<rparr>"
           and rc = \<open>''{"key":"value"}''\<close> and cl = 15])
     (simp_all add: newRequest_def WithJSON_def WithContentType_def choose_str_def retry_Config_def
        test_stdlib_def test_Parse_def HasPrefix_def strings_ToUpper_def is_ascii_def
        ascii_upper_def)

subsection \<open>The request builder: the target\<close>

lemma resolve_absolute: "isAbsoluteURL std rurl \<Longrightarrow> resolve_target std baseURL rurl = rurl"
  by (simp add: resolve_target_def)

lemma resolve_no_base: "resolve_target std [] rurl = rurl"
  by (simp add: resolve_target_def)

lemma TrimLeft_no_prefix: "\<not> HasPrefix s ''/'' \<Longrightarrow> TrimLeft s CHR ''/'' = s"
  by (cases s) (simp_all add: HasPrefix_def TrimLeft_def)

lemma resolve_relative_plain:
  "baseURL \<noteq> [] \<Longrightarrow> \<not> isAbsoluteURL std rurl \<Longrightarrow> \<not> HasPrefix rurl ''/'' \<Longrightarrow>
   resolve_target std baseURL rurl = TrimRight baseURL CHR ''/'' @ ''/'' @ rurl"
  by (simp add: resolve_target_def TrimLeft_no_prefix Let_def)

text \<open>
  A relative target that starts with a slash is appended to the trimmed base URL with its
  slashes trimmed and with no separator.
\<close>

lemma resolve_relative_slash:
  "baseURL \<noteq> [] \<Longrightarrow> \<not> isAbsoluteURL std rurl \<Longrightarrow> HasPrefix rurl ''/'' \<Longrightarrow>
   resolve_target std baseURL rurl = TrimRight baseURL CHR ''/'' @ TrimLeft rurl CHR ''/''"
  by (simp add: resolve_target_def Let_def)

text \<open>
  The query parameters of the request are appended: after the merge a key has the values
  it had on the target, followed by those of the request.
\<close>

lemma fold_Add_lookup:
  "mm_lookup (fold (\<lambda>v q. mm_Add q k v) vv q) k' =
     (if k' = k then mm_lookup q k @ vv else mm_lookup q k')"
  by (induction vv arbitrary: q) (simp_all add: mm_Add_def mm_lookup_put)

lemma add_queries_lookup:
  "mm_lookup (add_queries q rq) k =
     mm_lookup q k @ concat (map snd (filter (\<lambda>kv. fst kv = k) rq))"
  unfolding add_queries_def
  by (induction rq arbitrary: q) (auto simp: fold_Add_lookup)

text \<open>
  Claim C7. A target with a scheme is used as it is; otherwise, with a base URL, the
  resolved URL is the base URL without its trailing slashes, exactly one slash, and the
  target without its leading slashes; the query parameters of the request are appended
  to those of the resolved URL. The code adds the separating slash only when the target
  does not start with one, and then trims the leading slashes of the target: the base
  URL \<open>https://api.example.com\<close> and the target \<open>/api/users\<close>, the case of the test
  \<open>uses_base_url_for_relative_paths\<close>, give a URL with no separator.
\<close>

theorem base_url_join_drops_separator:
  "resolve_target test_stdlib ''https://api.example.com'' ''/api/users''
     = ''https://api.example.comapi/users''"
  by (simp add: resolve_target_def TrimRight_def TrimLeft_def HasPrefix_def isAbsoluteURL_def
      test_stdlib_def test_Parse_def)

subsection \<open>Package auth: the API key\<close>

lemma NewAPIKey_location_nonempty: "location (NewAPIKey std opts) \<noteq> []"
  by (simp add: NewAPIKey_def Let_def)

lemma NewAPIKey_key: "key (NewAPIKey std opts) = Key opts"
  by (simp add: NewAPIKey_def Let_def)

text \<open>
  Claim C8, as stated: \<open>Apply\<close> fails exactly when the secret is empty or the configured
  location is neither header nor query. That fails for a request without URL: the
  provider for query placement, name \<open>api_key\<close> and secret \<open>sekret\<close>, fails on it
  (\<open>request URL is nil\<close>), with a secret and a supported location.
\<close>

theorem apiKey_nil_url_counterexample:
  "\<not> (isl (apiKey_Apply test_stdlib
              (NewAPIKey test_stdlib \<lparr>Key = ''sekret'', In = ''query'', Name = ''api_key''\<rparr>)
              (plain_request ''GET''))
        \<longleftrightarrow> (Key \<lparr>Key = ''sekret'', In = ''query'', Name = ''api_key''\<rparr> = [] \<or>
             location (NewAPIKey test_stdlib \<lparr>Key = ''sekret'', In = ''query'', Name = ''api_key''\<rparr>)
               \<notin> {''header'', ''query''}))"
  by (simp add: apiKey_Apply_def NewAPIKey_def plain_request_def strings_ToLower_def
        strings_TrimSpace_def is_ascii_def ascii_lower_def ascii_space_def Let_def)

text \<open>
  Claim C8, amended: \<open>Apply\<close> of the API-key provider fails exactly when the secret is
  empty, or the configured location (trimmed and lower-cased, header when empty) is
  neither header nor query, or the location is query and the request has no URL. With
  a secret, query placement and a URL, the query of the URL has the secret as the only
  value of the configured name afterwards (name \<open>api_key\<close>, secret \<open>sekret\<close>: the query
  contains \<open>api_key=sekret\<close>); with a secret and header placement, the named header is
  set to the secret.
\<close>

theorem apiKey_Apply_outcome:
  "(isl (apiKey_Apply std (NewAPIKey std opts) req) \<longleftrightarrow>
      (Key opts = [] \<or> location (NewAPIKey std opts) \<notin> {''header'', ''query''} \<or>
       (location (NewAPIKey std opts) = ''query'' \<and> URL req = None))) \<and>
   (Key opts \<noteq> [] \<longrightarrow> location (NewAPIKey std opts) = ''query'' \<longrightarrow> URL req = Some u \<longrightarrow>
      apiKey_Apply std (NewAPIKey std opts) req
        = Inr (req\<lparr>URL := Some (u\<lparr>Query := mm_Set (Query u) (name (NewAPIKey std opts)) (Key opts)\<rparr>)\<rparr>) \<and>
      mm_lookup (mm_Set (Query u) (name (NewAPIKey std opts)) (Key opts)) (name (NewAPIKey std opts))
        = [Key opts]) \<and>
   (Key opts \<noteq> [] \<longrightarrow> location (NewAPIKey std opts) = ''header'' \<longrightarrow>
      apiKey_Apply std (NewAPIKey std opts) req
        = Inr (req\<lparr>Header := Header_Set (canon std) (Header req) (name (NewAPIKey std opts)) (Key opts)\<rparr>) \<and>
      Header_Get (canon std)
        (Header_Set (canon std) (Header req) (name (NewAPIKey std opts)) (Key opts))
        (name (NewAPIKey std opts)) = Key opts)"
  by (auto simp: apiKey_Apply_def NewAPIKey_location_nonempty NewAPIKey_key
        Header_Get_Set mm_Set_def mm_lookup_put split: option.splits)

theorem apiKey_Apply_outcome_witness:
  "apiKey_Apply test_stdlib
     (NewAPIKey test_stdlib \<lparr>Key = ''sekret'', In = ''query'', Name = ''api_key''\<rparr>)
     ((plain_request ''GET'')\<lparr>URL := Some \<lparr>Scheme = [], Host = [], Path = ''/x'', Query = []\<rparr>\<rparr>)
   = Inr ((plain_request ''GET'')\<lparr>URL := Some \<lparr>Scheme = [], Host = [], Path = ''/x'',
                                                  Query = [(''api_key'', [''sekret''])]\<rparr>\<rparr>) \<and>
   isl (apiKey_Apply test_stdlib
     (NewAPIKey test_stdlib \<lparr>Key = [], In = ''query'', Name = ''api_key''\<rparr>)
     ((plain_request ''GET'')\<lparr>URL := Some \<lparr>Scheme = [], Host = [], Path = ''/x'', Query = []\<rparr>\<rparr>)) \<and>
   isl (apiKey_Apply test_stdlib
     (NewAPIKey test_stdlib \<lparr>Key = ''sekret'', In = ''cookie'', Name = ''api_key''\<rparr>)
     ((plain_request ''GET'')\<lparr>URL := Some \<lparr>Scheme = [], Host = [], Path = ''/x'', Query = []\<rparr>\<rparr>))"
  using apiKey_Apply_outcome [of test_stdlib "\<lparr>Key = ''sekret'', In = ''query'', Name = ''api_key''\<rparr>"
      "(plain_request ''GET'')\<lparr>URL := Some \<lparr>Scheme = [], Host = [], Path = ''/x'', Query = []\<rparr>\<rparr>"
      "\<lparr>Scheme = [], Host = [], Path = ''/x'', Query = []\<rparr>"]
    apiKey_Apply_outcome [of test_stdlib "\<lparr>Key = [], In = ''query'', Name = ''api_key''\<rparr>"
      "(plain_request ''GET'')\<lparr>URL := Some \<lparr>Scheme = [], Host = [], Path = ''/x'', Query = []\<rparr>\<rparr>"
      "\<lparr>Scheme = [], Host = [], Path = ''/x'', Query = []\<rparr>"]
    apiKey_Apply_outcome [of test_stdlib "\<lparr>Key = ''sekret'', In = ''cookie'', Name = ''api_key''\<rparr>"
      "(plain_request ''GET'')\<lparr>URL := Some \<lparr>Scheme = [], Host = [], Path = ''/x'', Query = []\<rparr>\<rparr>"
      "\<lparr>Scheme = [], Host = [], Path = ''/x'', Query = []\<rparr>"]
  by (simp add: apiKey_Apply_def NewAPIKey_def plain_request_def strings_ToLower_def
        strings_TrimSpace_def is_ascii_def ascii_lower_def ascii_space_def mm_Set_def Let_def)

subsection \<open>The response wrapper\<close>











subsection \<open>Package breaker\<close>

lemma fresh_breaker_closed:
  "ReadyToTrip config = None \<Longrightarrow> closed_at config (fresh_breaker config host now) 0"
  by (simp add: fresh_breaker_def manager_get_def closed_at_def NewCircuitBreaker_def
        default_trip_def Let_def)

lemma manager_Do_fresh:
  assumes "host \<noteq> []" "m host = None"
  shows "manager_Do config m host now fn s
         = manager_Do config (m(host \<mapsto> fresh_breaker config host now)) host now fn s"
  using assms
  by (simp add: manager_Do_def manager_get_def fresh_breaker_def Let_def)

lemma manager_Do_success:
  assumes "host \<noteq> []" "m host = Some cb" "state cb = StateClosed" "fn s = ((resp, None), s')"
  shows "manager_Do config m host now fn s
         = ((resp, None), m(host \<mapsto> cb\<lparr>counts := \<lparr>ConsecutiveFailures = 0\<rparr>\<rparr>), s')"
  using assms
  by (simp add: manager_Do_def manager_get_def cb_Execute_def cb_currentState_def cb_onSuccess_def)

lemma manager_Do_failure:
  assumes "host \<noteq> []" "m host = Some cb" "closed_at config cb c" "fn s = ((resp, Some e), s')"
  shows "manager_Do config m host now fn s
         = ((None, Some e),
            m(host \<mapsto> (if c + 1 \<ge> 5
                        then cb\<lparr>state := StateOpen, counts := \<lparr>ConsecutiveFailures = c + 1\<rparr>,
                                last_transition := now\<rparr>
                        else cb\<lparr>counts := \<lparr>ConsecutiveFailures = c + 1\<rparr>\<rparr>)), s')"
  using assms
  by (simp add: manager_Do_def manager_get_def cb_Execute_def cb_currentState_def cb_onFailure_def
        closed_at_def default_trip_def Let_def)

lemma manager_Do_open:
  assumes "host \<noteq> []" "m host = Some cb" "open_since config cb t"
    "now \<le> t + defaultDuration (Timeout config) (30 * second)"
  shows "manager_Do config m host now fn s = ((None, Some ErrOpenState), m, s)"
proof -
  have "m(host \<mapsto> cb) = m" using assms(2) by (simp add: fun_upd_idem)
  with assms show ?thesis
    by (simp add: manager_Do_def manager_get_def cb_Execute_def cb_currentState_def open_since_def)
qed

lemma step_success:
  assumes "host \<noteq> []" "host_closed config host m c" "call_succeeds fn"
  shows "host_closed config host (fst (snd (manager_Do config m host now fn s))) 0"
proof -
  obtain cb where cb: "m host = Some cb" "closed_at config cb c"
    using assms(2) by (auto simp: host_closed_def)
  obtain resp s' where f: "fn s = ((resp, None), s')"
    using assms(3) by (cases "fn s") (auto simp: call_succeeds_def dest: spec [of _ s])
  have st: "state cb = StateClosed" using cb(2) by (simp add: closed_at_def)
  show ?thesis
    using cb(2)
    by (simp add: manager_Do_success [where fn = fn and s = s and m = m, OF assms(1) cb(1) st f] host_closed_def closed_at_def)
qed

lemma step_failure:
  assumes "host \<noteq> []" "host_closed config host m c" "call_fails fn"
  shows "(c + 1 < 5 \<longrightarrow> host_closed config host (fst (snd (manager_Do config m host now fn s))) (c + 1)) \<and>
         (c + 1 \<ge> 5 \<longrightarrow> host_open config host (fst (snd (manager_Do config m host now fn s))) now)"
proof -
  obtain cb where cb: "m host = Some cb" "closed_at config cb c"
    using assms(2) by (auto simp: host_closed_def)
  obtain resp e s' where f: "fn s = ((resp, Some e), s')"
    using assms(3) by (cases "fn s") (auto simp: call_fails_def dest: spec [of _ s])
  show ?thesis
    using cb(2)
    by (simp add: manager_Do_failure [where fn = fn and s = s and m = m, OF assms(1) cb f] host_closed_def host_open_def
          closed_at_def open_since_def)
qed

lemma manager_Do_all_append:
  "manager_Do_all config host (xs @ ys) m s =
     (case manager_Do_all config host xs m s of (m', s') \<Rightarrow> manager_Do_all config host ys m' s')"
  by (induction xs arbitrary: m s) (auto split: prod.splits)

lemma all_succeed:
  assumes "host \<noteq> []" "host_closed config host m 0" "list_all (\<lambda>c. call_succeeds (snd c)) pre"
  shows "host_closed config host (fst (manager_Do_all config host pre m s)) 0"
  using assms(2,3)
proof (induction pre arbitrary: m s)
  case Nil
  then show ?case by simp
next
  case (Cons x pre)
  obtain now fn where x: "x = (now, fn)" by (cases x)
  have "host_closed config host (fst (snd (manager_Do config m host now fn s))) 0"
    using Cons.prems x by (intro step_success [OF assms(1)]) simp_all
  then show ?case
    using Cons.IH Cons.prems(2) x by (auto split: prod.splits)
qed

lemma some_fail:
  assumes "host \<noteq> []" "host_closed config host m c" "list_all (\<lambda>c. call_fails (snd c)) fs"
    "c + length fs < 5"
  shows "host_closed config host (fst (manager_Do_all config host fs m s)) (c + length fs)"
  using assms(2,3,4)
proof (induction fs arbitrary: m s c)
  case Nil
  then show ?case by simp
next
  case (Cons x fs)
  obtain now fn where x: "x = (now, fn)" by (cases x)
  have "host_closed config host (fst (snd (manager_Do config m host now fn s))) (c + 1)"
    using step_failure [OF assms(1) Cons.prems(1), of fn now s] Cons.prems x by simp
  then have "host_closed config host
               (fst (manager_Do_all config host fs (fst (snd (manager_Do config m host now fn s)))
                      (snd (snd (manager_Do config m host now fn s))))) (c + 1 + length fs)"
    using Cons.prems by (intro Cons.IH) simp_all
  then show ?case
    using x by (auto split: prod.splits)
qed

lemma five_fail:
  assumes "host \<noteq> []" "host_closed config host m 0" "list_all (\<lambda>c. call_fails (snd c)) fs"
    "length fs = 5"
  shows "host_open config host (fst (manager_Do_all config host fs m s)) (fst (last fs))"
proof -
  have ne: "fs \<noteq> []" using assms(4) by auto
  obtain now fn where l: "last fs = (now, fn)" by (cases "last fs")
  have fs: "fs = butlast fs @ [(now, fn)]" using ne l by (metis append_butlast_last_id)
  have bl: "list_all (\<lambda>c. call_fails (snd c)) (butlast fs)" "length (butlast fs) = 4"
    using assms(3,4) by (auto simp: list_all_iff dest: in_set_butlastD)
  have fl: "call_fails fn"
    using assms(3) ne l by (metis last_in_set list_all_iff snd_conv)
  obtain m4 s4 where r4: "manager_Do_all config host (butlast fs) m s = (m4, s4)"
    by (cases "manager_Do_all config host (butlast fs) m s")
  have c4: "host_closed config host m4 4"
    using some_fail [OF assms(1,2) bl(1), of s] bl(2) r4 by simp
  have "host_open config host (fst (snd (manager_Do config m4 host now fn s4))) now"
    using step_failure [OF assms(1) c4 fl, of now s4] by simp
  moreover have "manager_Do_all config host fs m s
                 = manager_Do_all config host [(now, fn)] m4 s4"
    by (subst fs) (simp add: manager_Do_all_append r4 del: manager_Do_all.simps)
  ultimately show ?thesis
    using l by (auto split: prod.splits)
qed

lemma manager_Do_all_fresh:
  assumes "host \<noteq> []" "m host = None" "xs \<noteq> []"
  shows "manager_Do_all config host xs m s
         = manager_Do_all config host xs (m(host \<mapsto> fresh_breaker config host (fst (hd xs)))) s"
proof (cases xs)
  case Nil
  with assms show ?thesis by simp
next
  case (Cons x ys)
  obtain now fn where x: "x = (now, fn)" by (cases x)
  show ?thesis
    using manager_Do_fresh [where m = m and host = host and config = config and now = now
        and fn = fn and s = s, OF assms(1,2)] by (simp add: Cons x)
qed

lemma manager_Do_bypass: "manager_Do config m [] now fn s = (fst (fn s), m, snd (fn s))"
  by (simp add: manager_Do_def split: prod.splits)

text \<open>
  Claim C6. For the breaker of a host only an error returned by the wrapped call counts
  as a failure; a response returned without error counts as a success, whatever its
  status. After five consecutive failures (the default threshold) the breaker is open:
  the next call to that host, made before the cooldown has elapsed, is rejected with the
  breaker-open error and the wrapped call is not made (the state it would act on is
  unchanged). A request with an empty host bypasses the breaker: the wrapped call is
  made directly. Here the manager starts without a breaker for the host, any number of
  calls that return no error come first (\<open>pre\<close>), then five calls that return an error
  (\<open>fails\<close>).
\<close>

theorem breaker_counts_errors_only:
  assumes "host \<noteq> []" and "m host = None" and "ReadyToTrip config = None"
    and "list_all (\<lambda>c. call_succeeds (snd c)) pre"
    and "list_all (\<lambda>c. call_fails (snd c)) fails" and "length fails = 5"
    and "now \<le> fst (last fails) + defaultDuration (Timeout config) (30 * second)"
  shows "manager_Do config mb [] t fb sb = (fst (fb sb), mb, snd (fb sb)) \<and>
         (case manager_Do_all config host (pre @ fails) m s of
            (m', s') \<Rightarrow> manager_Do config m' host now fn s' = ((None, Some ErrOpenState), m', s')) \<and>
         (mc host = Some cb \<and> state cb = StateClosed \<and> fc sc = ((Some resp, None), sd) \<longrightarrow>
            manager_Do config mc host t fc sc
              = ((Some resp, None), mc(host \<mapsto> cb\<lparr>counts := \<lparr>ConsecutiveFailures = 0\<rparr>\<rparr>), sd))"
proof (intro conjI impI)
  show "manager_Do config mb [] t fb sb = (fst (fb sb), mb, snd (fb sb))"
    by (rule manager_Do_bypass)
next
  assume "mc host = Some cb \<and> state cb = StateClosed \<and> fc sc = ((Some resp, None), sd)"
  then show "manager_Do config mc host t fc sc
              = ((Some resp, None), mc(host \<mapsto> cb\<lparr>counts := \<lparr>ConsecutiveFailures = 0\<rparr>\<rparr>), sd)"
    using manager_Do_success [where fn = fc and s = sc and m = mc and cb = cb, OF assms(1)]
    by simp
next
  let ?calls = "pre @ fails"
  let ?m0 = "m(host \<mapsto> fresh_breaker config host (fst (hd ?calls)))"
  have ne: "?calls \<noteq> []" using assms(6) by auto
  have start: "manager_Do_all config host ?calls m s = manager_Do_all config host ?calls ?m0 s"
    using assms(1,2) ne by (rule manager_Do_all_fresh)
  have c0: "host_closed config host ?m0 0"
    using fresh_breaker_closed [OF assms(3)] by (simp add: host_closed_def)
  obtain mp sp where rp: "manager_Do_all config host pre ?m0 s = (mp, sp)"
    by (cases "manager_Do_all config host pre ?m0 s")
  have cp: "host_closed config host mp 0"
    using all_succeed [OF assms(1) c0 assms(4), of s] rp by simp
  obtain m' s' where r: "manager_Do_all config host fails mp sp = (m', s')"
    by (cases "manager_Do_all config host fails mp sp")
  have "host_open config host m' (fst (last fails))"
    using five_fail [OF assms(1) cp assms(5,6), of sp] r by simp
  then obtain cb' where cb': "m' host = Some cb'" "open_since config cb' (fst (last fails))"
    by (auto simp: host_open_def)
  have "manager_Do config m' host now fn s' = ((None, Some ErrOpenState), m', s')"
    using assms(1) cb' assms(7) by (rule manager_Do_open)
  then show "case manager_Do_all config host ?calls m s of
               (m', s') \<Rightarrow> manager_Do config m' host now fn s' = ((None, Some ErrOpenState), m', s')"
    by (subst start) (simp add: manager_Do_all_append rp r)
qed

theorem breaker_counts_errors_only_witness:
  "(case manager_Do_all default_breaker_Config ''svc.test''
           ([(1, answer (Some (status_response 503), None))] @
            [(2, answer (None, Some (Leaf None ''connection refused''))),
             (3, answer (None, Some (Leaf None ''connection refused''))),
             (4, answer (None, Some (Leaf None ''connection refused''))),
             (5, answer (None, Some (Leaf None ''connection refused''))),
             (6, answer (None, Some (Leaf None ''connection refused'')))])
           Map.empty 0 of
      (m', s') \<Rightarrow>
        manager_Do default_breaker_Config m' ''svc.test'' 7 (answer (Some (status_response 200), None)) s'
          = ((None, Some ErrOpenState), m', s')) \<and>
   manager_Do default_breaker_Config Map.empty [] 7 (answer (Some (status_response 200), None)) 0
     = ((Some (status_response 200), None), Map.empty, 1)"
  using breaker_counts_errors_only [where host = "''svc.test''" and m = Map.empty
      and config = default_breaker_Config
      and pre = "[(1, answer (Some (status_response 503), None))]"
      and fails = "[(2, answer (None, Some (Leaf None ''connection refused''))),
             (3, answer (None, Some (Leaf None ''connection refused''))),
             (4, answer (None, Some (Leaf None ''connection refused''))),
             (5, answer (None, Some (Leaf None ''connection refused''))),
             (6, answer (None, Some (Leaf None ''connection refused'')))]"
      and now = 7 and s = 0 and fn = "answer (Some (status_response 200), None)"
      and mb = Map.empty and t = 7 and fb = "answer (Some (status_response 200), None)"
      and sb = 0 and mc = Map.empty and cb = "fresh_breaker default_breaker_Config ''svc.test'' 0"
      and fc = "answer (Some (status_response 200), None)" and sc = 0 and sd = 1
      and resp = "status_response 200"]
  by (simp add: default_breaker_Config_def call_succeeds_def call_fails_def answer_def
        defaultDuration_def second_def del: manager_Do_all.simps)

end
